theory Spec2Isabelle
  imports Complex_Main
begin

section \<open>Common values: exceptions, images, byte strings\<close>

text \<open>
  Python exceptions are values. Only the classes that the scripts can meet are listed;
  \<open>OtherError\<close> stands for any further subclass of \<open>Exception\<close> (a transport error of
  \<open>requests\<close>, a JSON decoding error, ...).
\<close>

datatype exn = AttributeError | IndexError | KeyError | ValueError | OSError
  | UnidentifiedImageError | OtherError

datatype 'a attempt = Raised exn | Returned 'a

text \<open>
  A Pillow image: its mode, its size (width, height) and its pixels in row-major order,
  one list of band values per pixel (what \<open>getdata()\<close> yields as tuples).
\<close>

record image =
  mode :: string
  img_size :: "nat \<times> nat"
  data :: "nat list list"

text \<open>
  A byte string is modelled by what it decodes to: either the encoding of an image in some
  file format, or raw bytes that no decoder of Pillow recognises. \<open>Raw []\<close> is the empty
  byte string \<open>b""\<close>, the only byte string that is falsy in Python.
\<close>

datatype bytes = Encoded string image | Raw "nat list"

definition falsy_bytes :: "bytes \<Rightarrow> bool" where
  "falsy_bytes b = (b = Raw [])"

text \<open>\<open>Image.open\<close> on a byte string: raises on bytes that are not an image.\<close>

definition Image_open :: "bytes \<Rightarrow> image attempt" where
  "Image_open b = (case b of Encoded fmt img \<Rightarrow> Returned img | Raw bs \<Rightarrow> Raised UnidentifiedImageError)"

text \<open>
  The modes Pillow's PNG writer accepts; saving any other mode raises. An RGBA image is
  written as it is (colour type 6), so that decoding gives the mode, the size and
  the pixels back. PNG has no image of width or height 0.
\<close>

definition png_modes :: "string list" where
  "png_modes = [''1'', ''L'', ''LA'', ''I'', ''I;16'', ''P'', ''RGB'', ''RGBA'']"

definition save_png :: "image \<Rightarrow> bytes attempt" where
  "save_png img =
     (if mode img \<in> set png_modes \<and> 0 < fst (img_size img) \<and> 0 < snd (img_size img)
      then Returned (Encoded ''PNG'' img) else Raised OSError)"

text \<open>
  The pixel arithmetic of Pillow that the scripts call but do not contain is a parameter:
  the conversion of one pixel of a given mode to an RGBA quadruple (for a palette image it
  would also read the palette, which is not modelled), the Lanczos resampling and the
  sharpening kernel, both on RGBA pixel data of a given size.
\<close>

record pillow =
  to_rgba :: "string \<Rightarrow> nat list \<Rightarrow> nat \<times> nat \<times> nat \<times> nat"
  lanczos :: "nat \<times> nat \<Rightarrow> nat \<times> nat \<Rightarrow> nat list list \<Rightarrow> nat list list"
  sharpen :: "nat \<times> nat \<Rightarrow> nat list list \<Rightarrow> nat list list"

definition convert_RGBA :: "pillow \<Rightarrow> image \<Rightarrow> image" where
  "convert_RGBA pil img =
     img\<lparr>mode := ''RGBA'',
         data := map (\<lambda>px. case to_rgba pil (mode img) px of (r, g, b, a) \<Rightarrow> [r, g, b, a]) (data img)\<rparr>"

text \<open>
  \<open>Image.resize(size, LANCZOS)\<close>: raises \<open>ValueError\<close> unless both sides are positive, and
  \<open>OverflowError\<close> (here \<open>OtherError\<close>) for a side that does not fit a C \<open>int\<close>. Running out
  of memory on a large target depends on the machine and is not modelled.
\<close>

definition resize_LANCZOS :: "pillow \<Rightarrow> image \<Rightarrow> int \<times> int \<Rightarrow> image attempt" where
  "resize_LANCZOS pil img target =
     (if fst target < 1 \<or> snd target < 1 then Raised ValueError
      else if 2147483647 < fst target \<or> 2147483647 < snd target then Raised OtherError
      else Returned (img\<lparr>img_size := (nat (fst target), nat (snd target)),
                         data := lanczos pil (img_size img) (nat (fst target), nat (snd target)) (data img)\<rparr>))"

definition filter_SHARPEN :: "pillow \<Rightarrow> image \<Rightarrow> image" where
  "filter_SHARPEN pil img = img\<lparr>data := sharpen pil (img_size img) (data img)\<rparr>"

section \<open>make_transparent.py\<close>

text \<open>
  \<open>os.path.splitext\<close>: the extension starts at the last dot of the last path component,
  leading dots of the component not counted.
\<close>

definition splitext :: "string \<Rightarrow> string \<times> string" where
  "splitext p =
     (let comp = rev (takeWhile (\<lambda>c. c \<noteq> CHR ''/'') (rev p));
          body = dropWhile (\<lambda>c. c = CHR ''.'') comp
      in if CHR ''.'' \<in> set body
         then (let ext = CHR ''.'' # rev (takeWhile (\<lambda>c. c \<noteq> CHR ''.'') (rev p))
               in (take (length p - length ext) p, ext))
         else (p, []))"

text \<open>
  The file system of the scripts: what exists, by path, and the paths that cannot be opened
  for writing (missing directory, no permission, full disk) or for reading (the path exists
  but is a directory, or a file without read permission). \<open>os.path.exists\<close> asks only
  whether the path is there.
\<close>

record filesystem =
  files :: "string \<rightharpoonup> bytes"
  write_fails :: "string \<Rightarrow> bool"
  read_fails :: "string \<Rightarrow> bool"

definition path_exists :: "filesystem \<Rightarrow> string \<Rightarrow> bool" where
  "path_exists fs p = (p \<in> dom (files fs))"

definition read_file :: "filesystem \<Rightarrow> string \<Rightarrow> bytes attempt" where
  "read_file fs p =
     (case files fs p of None \<Rightarrow> Raised OSError
      | Some b \<Rightarrow> if read_fails fs p then Raised OSError else Returned b)"

definition write_file :: "filesystem \<Rightarrow> string \<Rightarrow> bytes \<Rightarrow> filesystem attempt" where
  "write_file fs p b =
     (if write_fails fs p then Raised OSError else Returned (fs\<lparr>files := (files fs)(p \<mapsto> b)\<rparr>))"

text \<open>
  The body of the \<open>for item in data\<close> loop of \<open>make_transparent\<close>. The test
  \<open>item[0] > 240 and item[1] > 240 and item[2] > 240\<close> reads the bands from the left and stops
  at the first one that is not above 240; reading a band the tuple does not have raises.
\<close>

definition whiten_item :: "nat list \<Rightarrow> nat list attempt" where
  "whiten_item item =
     (case item of [] \<Rightarrow> Raised IndexError
      | r # gs \<Rightarrow>
          if 240 < r then
            (case gs of [] \<Rightarrow> Raised IndexError
             | g # bs \<Rightarrow>
                 if 240 < g then
                   (case bs of [] \<Rightarrow> Raised IndexError
                    | b # as \<Rightarrow> if 240 < b then Returned [255, 255, 255, 0] else Returned item)
                 else Returned item)
          else Returned item)"

fun whiten_loop :: "nat list list \<Rightarrow> nat list list \<Rightarrow> nat list list attempt" where
  "whiten_loop new_data [] = Returned new_data"
| "whiten_loop new_data (item # rest) =
     (case whiten_item item of Raised e \<Rightarrow> Raised e
      | Returned px \<Rightarrow> whiten_loop (new_data @ [px]) rest)"

text \<open>
  \<open>make_transparent(input_path, output_path=None)\<close>. It returns nothing; the result is the
  file system after the call and the line printed, or the exception that leaves the call.
  \<open>putdata\<close> with as many pixels as the image has replaces all of them.
\<close>

definition make_transparent ::
  "pillow \<Rightarrow> filesystem \<Rightarrow> string \<Rightarrow> string option \<Rightarrow> (filesystem \<times> string) attempt" where
  "make_transparent pil fs input_path output_path_arg =
     (let output_path =
            (case output_path_arg of
               None \<Rightarrow> (case splitext input_path of (name, ext) \<Rightarrow> name @ ''_transparent'' @ ext)
             | Some p \<Rightarrow> p)
      in case read_file fs input_path of Raised e \<Rightarrow> Raised e
         | Returned raw \<Rightarrow>
             (case Image_open raw of Raised e \<Rightarrow> Raised e
              | Returned opened \<Rightarrow>
                  (let img = convert_RGBA pil opened
                   in case whiten_loop [] (data img) of Raised e \<Rightarrow> Raised e
                      | Returned new_data \<Rightarrow>
                          (case save_png (img\<lparr>data := new_data\<rparr>) of Raised e \<Rightarrow> Raised e
                           | Returned png \<Rightarrow>
                               (case write_file fs output_path png of Raised e \<Rightarrow> Raised e
                                | Returned fs' \<Rightarrow>
                                    Returned (fs', ''Converted: '' @ input_path @ '' -> '' @ output_path))))))"

text \<open>
  What the claim says one RGBA pixel becomes (a list of another length is not an RGBA
  pixel and is left alone).
\<close>

fun white_to_transparent :: "nat list \<Rightarrow> nat list" where
  "white_to_transparent [r, g, b, a] =
     (if 240 < r \<and> 240 < g \<and> 240 < b then [255, 255, 255, 0] else [r, g, b, a])"
| "white_to_transparent px = px"

section \<open>asset_generator.py: data\<close>

datatype FluxModel = KONTEXT_PRO | KONTEXT_MAX | PRO_1_1 | PRO | DEV

fun model_value :: "FluxModel \<Rightarrow> string" where
  "model_value KONTEXT_PRO = ''flux-kontext-pro''"
| "model_value KONTEXT_MAX = ''flux-kontext-max''"
| "model_value PRO_1_1 = ''flux-pro-1.1''"
| "model_value PRO = ''flux-pro''"
| "model_value DEV = ''flux-dev''"

datatype AssetType = YETI_SPRITE | ITEM_SPRITE | ENVIRONMENT | STYLE_GUIDE

record AssetSpec =
  name :: string
  asset_type :: AssetType
  spec_size :: "int \<times> int"
  description :: string
  variations :: "string list option"
  batch_group :: "string option"
  model :: FluxModel
  aspect_ratio :: string
  reference_image_path :: "string option"

text \<open>
  The fields of a \<open>FluxAssetGenerator\<close> that the methods below read. The counter
  \<open>active_requests\<close> is the one field they assign; it lives in the state (\<open>world\<close>).
\<close>

record generator =
  api_key :: string
  base_url :: string
  output_dir :: string
  max_concurrent_requests :: int
  max_concurrent_kontext_max :: int
  yeti_style :: string
  icon_style :: string
  environment_style :: string
  asset_specs :: "AssetSpec list"

definition load_asset_specs :: "AssetSpec list" where
  "load_asset_specs =
     [\<lparr>name = ''style_reference'', asset_type = STYLE_GUIDE, spec_size = (512, 512),
       description = ''Cute yeti character for 2D endless runner game, white and blue fur, friendly cartoon face, simple clean art style, facing right, standing neutral pose'',
       variations = None, batch_group = None, model = PRO_1_1, aspect_ratio = ''1:1'',
       reference_image_path = None\<rparr>,
      \<lparr>name = ''yeti_run_frame1_left_foot_forward_no_bg'', asset_type = YETI_SPRITE, spec_size = (60, 60),
       description = ''A single cute yeti character running, left foot forward, right arm extended back, left arm forward, animated sprite style, transparent colorless png background, matching the exact art style of the reference image, 2D cartoon illustration, simple shading, friendly expression, running pose frame 1'',
       variations = None, batch_group = Some ''yeti'', model = KONTEXT_PRO, aspect_ratio = ''1:1'',
       reference_image_path = None\<rparr>,
      \<lparr>name = ''yeti_run_frame3_both_feet_contact_no_bg'', asset_type = YETI_SPRITE, spec_size = (60, 60),
       description = ''A single cute yeti character running, right foot forward, left arm extended back, right arm forward, animated sprite style, transparent colorless png background, matching the exact art style of the reference image, 2D cartoon illustration, simple shading, friendly expression, running pose frame 2'',
       variations = None, batch_group = Some ''yeti'', model = KONTEXT_PRO, aspect_ratio = ''1:1'',
       reference_image_path = None\<rparr>,
      \<lparr>name = ''yeti_jump_no_bg'', asset_type = YETI_SPRITE, spec_size = (60, 60),
       description = ''Same yeti character, jumping pose, both legs tucked up'',
       variations = None, batch_group = Some ''yeti'', model = KONTEXT_PRO, aspect_ratio = ''1:1'',
       reference_image_path = None\<rparr>,
      \<lparr>name = ''yeti_cheer_no_bg'', asset_type = YETI_SPRITE, spec_size = (60, 60),
       description = ''Same yeti character, celebration pose, both arms raised high'',
       variations = None, batch_group = Some ''yeti'', model = KONTEXT_PRO, aspect_ratio = ''1:1'',
       reference_image_path = None\<rparr>,
      \<lparr>name = ''yeti_stumble_no_bg'', asset_type = YETI_SPRITE, spec_size = (60, 60),
       description = ''Same yeti character, single yeti, transform from happy facial expression to sad, a little dazed, wobbly pose, stars circling head'',
       variations = None, batch_group = Some ''yeti'', model = KONTEXT_PRO, aspect_ratio = ''1:1'',
       reference_image_path = None\<rparr>,
      \<lparr>name = ''pipeline_track'', asset_type = ENVIRONMENT, spec_size = (128, 32),
       description = ''horizontal CI/CD pipeline conveyor belt track, pixel art style, industrial metal texture with subtle repeating pattern'',
       variations = None, batch_group = None, model = KONTEXT_PRO, aspect_ratio = ''4:1'',
       reference_image_path = None\<rparr>,
      \<lparr>name = ''background'', asset_type = ENVIRONMENT, spec_size = (480, 320),
       description = ''minimal cloud infrastructure background, soft gradient, simple design'',
       variations = None, batch_group = None, model = KONTEXT_PRO, aspect_ratio = ''3:2'',
       reference_image_path = None\<rparr>,
      \<lparr>name = ''ui_frame'', asset_type = ENVIRONMENT, spec_size = (160, 32),
       description = ''clean UI frame for progress counter, rounded corners, minimal design'',
       variations = None, batch_group = None, model = KONTEXT_PRO, aspect_ratio = ''4:1'',
       reference_image_path = None\<rparr>]"

text \<open>
  \<open>FluxAssetGenerator.__init__(api_key, region)\<close>. The f-strings of the two long styles are
  written out with the brand colours filled in.
\<close>

definition FluxAssetGenerator_init :: "string \<Rightarrow> string \<Rightarrow> generator" where
  "FluxAssetGenerator_init key region =
     \<lparr>api_key = key,
      base_url = (if region = ''eu'' then ''https://api.eu.bfl.ai''
                  else if region = ''us'' then ''https://api.us.bfl.ai''
                  else ''https://api.bfl.ai''),
      output_dir = ''generated_assets'',
      max_concurrent_requests = 24,
      max_concurrent_kontext_max = 6,
      yeti_style =
       [CHR 0x0A] @
       ''        clean minimal pixel art style, 8-bit retro gaming aesthetic, '' @
       [CHR 0x0A] @
       ''        for small casual endless runner game window,'' @
       [CHR 0x0A] @
       ''        using Fluree brand colors: ice blue #CEF1FF, '' @
       [CHR 0x0A] @
       ''        vibrant blue #13C6FF, '' @
       [CHR 0x0A] @
       ''        deep navy #091133, metal #5D6970,'' @
       [CHR 0x0A] @
       ''        completely transparent background, PNG with alpha channel, isolated on transparent background, '' @
       [CHR 0x0A] @
       ''        no background elements, cut out style, no ground, no shadows, no scenery, '' @
       [CHR 0x0A] @
       ''        floating character on pure transparency, remove all background completely,'' @
       [CHR 0x0A] @
       ''        consistent lighting and perspective, crisp pixel edges, no blur, isolated subject,'' @
       [CHR 0x0A] @
       ''        optimized for CI/CD pipeline themed endless runner game'' @
       [CHR 0x0A] @
       ''        '',
      icon_style = ''simple flat design, solid colors, transparent background, clean minimal icon, no gradients, no shadows'',
      environment_style =
       [CHR 0x0A] @
       ''        clean pixel art style, using metal #5D6970 and grey #979797 tones,'' @
       [CHR 0x0A] @
       ''        Fluree SafeBlue #00A0D1 accents, minimal aesthetic for small game window,'' @
       [CHR 0x0A] @
       ''        transparent background, PNG with alpha channel'' @
       [CHR 0x0A] @
       ''        '',
      asset_specs = load_asset_specs\<rparr>"

text \<open>
  The attributes of a generator object: the names \<open>__init__\<close> assigns on \<open>self\<close>, in its
  order, and the methods of the class. No other statement of the file assigns a new
  attribute of \<open>self\<close>. Reading any other name raises \<open>AttributeError\<close>.
\<close>

definition instance_attributes :: "string list" where
  "instance_attributes =
     [''api_key'', ''base_urls'', ''base_url'', ''output_dir'', ''max_concurrent_requests'',
      ''max_concurrent_kontext_max'', ''active_requests'', ''logger'', ''brand_colors'',
      ''yeti_style'', ''icon_style'', ''environment_style'', ''asset_specs'']"

definition class_attributes :: "string list" where
  "class_attributes =
     [''__init__'', ''_load_asset_specs'', ''_encode_image_to_base64'', ''_wait_for_rate_limit'',
      ''_submit_generation_request'', ''_poll_for_result'', ''_build_prompt'',
      ''_build_item_prompt'', ''_build_yeti_prompt'', ''_build_environment_prompt'',
      ''generate_image'', ''post_process_image'', ''generate_asset'',
      ''generate_style_guide_first'', ''generate_batch'',
      ''_generate_animation_sequence_simplified'', ''generate_all_improved'',
      ''generate_yeti_animation_only'', ''generate_item_icons_only'',
      ''setup_style_guide_references'', ''edit_image'', ''remove_background'',
      ''batch_remove_backgrounds'', ''interactive_edit_session'', ''interactive_review'']"

definition has_attribute :: "string \<Rightarrow> bool" where
  "has_attribute a = (a \<in> set instance_attributes \<or> a \<in> set class_attributes)"

text \<open>The text an f-string interpolates for a string attribute of the generator.\<close>

definition attribute_text :: "generator \<Rightarrow> string \<Rightarrow> string attempt" where
  "attribute_text g a =
     (if \<not> has_attribute a then Raised AttributeError
      else if a = ''api_key'' then Returned (api_key g)
      else if a = ''base_url'' then Returned (base_url g)
      else if a = ''yeti_style'' then Returned (yeti_style g)
      else if a = ''icon_style'' then Returned (icon_style g)
      else if a = ''environment_style'' then Returned (environment_style g)
      else Returned ''<object>'')"

section \<open>asset_generator.py: the outside world\<close>

text \<open>
  A response of \<open>requests\<close>: status code, the value of \<open>json()\<close> (\<open>None\<close> when the body is
  not the JSON object the code reads, so that reading it raises), \<open>content\<close> and \<open>text\<close>.
  The JSON of a submission holds \<open>id\<close> and \<open>polling_url\<close>; the JSON of a status request
  holds \<open>status\<close>, \<open>result.sample\<close>, \<open>details\<close> and \<open>progress\<close>; each key may be absent.
\<close>

datatype submit_json = Submit_json (json_id: "string option") (json_polling_url: "string option")

datatype poll_json = Poll_json (json_status: "string option") (json_sample: "string option")
  (json_details: "string option") (json_progress: "string option")

datatype 'j response = Response (status_code: int) (json: "'j option") (content: bytes) (body_text: string)

datatype post_data = Post_data (sent_prompt: string) (sent_aspect_ratio: string)
  (sent_input_image: "bytes option")

text \<open>
  What the outside answers, by the number of the call: the k-th \<open>requests.post\<close>, the k-th
  \<open>requests.get\<close>, the k-th reading of \<open>time.time()\<close>, the k-th draw of
  \<open>random.uniform(5, 15)\<close>; Pillow's pixel arithmetic; and the text \<open>str(e)\<close> of an exception,
  which the library that raises it chooses. The clock readings are doubles.
\<close>

record env =
  post_reply :: "nat \<Rightarrow> submit_json response attempt"
  get_reply :: "nat \<Rightarrow> poll_json response attempt"
  clock :: "nat \<Rightarrow> rat"
  uniform_5_15 :: "nat \<Rightarrow> rat"
  pixel_ops :: pillow
  exception_text :: "exn \<Rightarrow> string"

datatype log_event = Info string | Warning string | Error string

text \<open>
  The state the methods change: the counter of the generator, every value the counter was
  assigned (oldest first), the requests sent (a POST with its endpoint, key and body, a GET with its URL and key
  header), the clock readings and random draws used,
  the arguments of \<open>time.sleep\<close>, the log and the file system.
\<close>

record world =
  active_requests :: int
  counter_history :: "int list"
  posted :: "(string \<times> string \<times> post_data) list"
  fetched :: "(string \<times> string option) list"
  clock_reads :: nat
  draws :: nat
  sleeps :: "rat list"
  logged :: "log_event list"
  fs :: filesystem

datatype 'a run = Out_of_fuel | Done 'a

definition time_time :: "env \<Rightarrow> world \<Rightarrow> rat \<times> world" where
  "time_time e w = (clock e (clock_reads w), w\<lparr>clock_reads := Suc (clock_reads w)\<rparr>)"

definition time_sleep :: "rat \<Rightarrow> world \<Rightarrow> world" where
  "time_sleep d w = w\<lparr>sleeps := sleeps w @ [d]\<rparr>"

definition random_uniform :: "env \<Rightarrow> world \<Rightarrow> rat \<times> world" where
  "random_uniform e w = (uniform_5_15 e (draws w), w\<lparr>draws := Suc (draws w)\<rparr>)"

definition requests_post ::
  "env \<Rightarrow> string \<Rightarrow> string \<Rightarrow> post_data \<Rightarrow> world \<Rightarrow> submit_json response attempt \<times> world" where
  "requests_post e endpoint key d w =
     (post_reply e (length (posted w)), w\<lparr>posted := posted w @ [(endpoint, key, d)]\<rparr>)"

definition requests_get ::
  "env \<Rightarrow> string \<Rightarrow> string option \<Rightarrow> world \<Rightarrow> poll_json response attempt \<times> world" where
  "requests_get e url key w =
     (get_reply e (length (fetched w)), w\<lparr>fetched := fetched w @ [(url, key)]\<rparr>)"

definition logger :: "log_event \<Rightarrow> world \<Rightarrow> world" where
  "logger ev w = w\<lparr>logged := logged w @ [ev]\<rparr>"

definition set_active_requests :: "int \<Rightarrow> world \<Rightarrow> world" where
  "set_active_requests v w = w\<lparr>active_requests := v, counter_history := counter_history w @ [v]\<rparr>"

text \<open>Decimal text of an integer, as f-strings print it.\<close>

definition digit_char :: "nat \<Rightarrow> char" where
  "digit_char d = ''0123456789'' ! (d mod 10)"

fun str_nat :: "nat \<Rightarrow> string" where
  "str_nat n = (if n < 10 then [digit_char n] else str_nat (n div 10) @ [digit_char (n mod 10)])"

declare str_nat.simps [simp del]

definition str_int :: "int \<Rightarrow> string" where
  "str_int i = (if i < 0 then CHR ''-'' # str_nat (nat (- i)) else str_nat (nat i))"

section \<open>asset_generator.py: submitting a request\<close>

text \<open>
  Loops and the recursion of the retry take fuel: a run that needs more steps than it was
  given stops with \<open>Out_of_fuel\<close> and the state it reached. A call that returns does so for
  every larger fuel; a call that never returns is \<open>Out_of_fuel\<close> for every fuel.

  \<open>_wait_for_rate_limit\<close>: one unit of fuel per test of the loop condition. Nothing but
  the submitting call itself changes the counter (the script runs one thread).
\<close>

definition max_requests :: "generator \<Rightarrow> FluxModel \<Rightarrow> int" where
  "max_requests g m =
     (if m = KONTEXT_MAX then max_concurrent_kontext_max g else max_concurrent_requests g)"

fun wait_for_rate_limit :: "generator \<Rightarrow> nat \<Rightarrow> FluxModel \<Rightarrow> world \<Rightarrow> unit run \<times> world" where
  "wait_for_rate_limit g 0 m w = (Out_of_fuel, w)"
| "wait_for_rate_limit g (Suc n) m w =
     (if max_requests g m \<le> active_requests w
      then wait_for_rate_limit g n m (time_sleep 1 w)
      else (Done (), w))"

record task_info =
  task_id :: string
  polling_url :: string

text \<open>The \<open>finally\<close> clause of \<open>_submit_generation_request\<close>.\<close>

definition release :: "world \<Rightarrow> world" where
  "release w = set_active_requests (active_requests w - 1) w"

text \<open>
  \<open>_submit_generation_request\<close>. Every exception raised inside the \<open>try\<close> is caught, logged
  and turned into \<open>None\<close>. The reference image stands for its base64 text, which is empty
  exactly when the image file is.
\<close>

fun submit_generation_request ::
  "generator \<Rightarrow> env \<Rightarrow> nat \<Rightarrow> string \<Rightarrow> FluxModel \<Rightarrow> string \<Rightarrow> bytes option \<Rightarrow> world
     \<Rightarrow> task_info option run \<times> world" where
  "submit_generation_request g e 0 prompt m ratio reference_image w = (Out_of_fuel, w)"
| "submit_generation_request g e (Suc n) prompt m ratio reference_image w =
     (case wait_for_rate_limit g (Suc n) m w of
        (Out_of_fuel, w1) \<Rightarrow> (Out_of_fuel, w1)
      | (Done u, w1) \<Rightarrow>
          (let w2 = set_active_requests (active_requests w1 + 1) w1;
               input_image =
                 (case reference_image of
                    None \<Rightarrow> None
                  | Some b \<Rightarrow> if \<not> falsy_bytes b \<and> (m = KONTEXT_PRO \<or> m = KONTEXT_MAX)
                              then Some b else None);
               body = Post_data prompt ratio input_image;
               endpoint = base_url g @ ''/v1/'' @ model_value m;
               w3 = logger (Info (''Submitting request to '' @ endpoint)) w2
           in case requests_post e endpoint (api_key g) body w3 of
                (Raised x, w4) \<Rightarrow>
                  (Done None, release (logger (Error (''Request failed: '' @ exception_text e x)) w4))
              | (Returned response, w4) \<Rightarrow>
                  if status_code response = 200 then
                    (case json response of
                       None \<Rightarrow>
                         (Done None,
                          release (logger (Error (''Request failed: '' @ exception_text e OtherError)) w4))
                     | Some result \<Rightarrow>
                         (case json_id result of
                            None \<Rightarrow>
                              (Done None,
                               release (logger (Error (''Request failed: '' @ exception_text e KeyError)) w4))
                          | Some i \<Rightarrow>
                              (let w5 = logger (Info (''Task submitted successfully. ID: '' @ i)) w4;
                                   constructed = base_url g @ ''/v1/get_result?id='' @ i;
                                   url = (case json_polling_url result of
                                            None \<Rightarrow> constructed
                                          | Some u \<Rightarrow> if u = [] then constructed else u);
                                   w6 = logger (Info (''Polling URL: '' @ url)) w5
                               in (Done (Some \<lparr>task_id = i, polling_url = url\<rparr>), release w6))))
                  else if status_code response = 429 then
                    (let w5 = logger (Warning ''Rate limited, waiting...'') w4
                     in case random_uniform e w5 of
                          (d, w6) \<Rightarrow>
                            (case submit_generation_request g e n prompt m ratio reference_image
                                    (time_sleep d w6) of
                               (Out_of_fuel, w7) \<Rightarrow> (Out_of_fuel, w7)
                             | (Done r, w7) \<Rightarrow> (Done r, release w7)))
                  else if status_code response = 402 then
                    (Done None, release (logger (Error ''Insufficient credits'') w4))
                  else
                    (Done None,
                     release (logger (Error (''API Error: '' @ str_int (status_code response) @ '' - ''
                                             @ body_text response)) w4))))"

section \<open>asset_generator.py: polling\<close>

text \<open>
  Python floats are IEEE binary64. \<open>binary64 x\<close> is the double nearest to the rational \<open>x\<close>
  (ties to even) for \<open>\<bar>x\<bar> < 2 ^ 1024\<close>: the doubles of magnitude in \<open>[2 ^ e, 2 ^ (e + 1))\<close>
  are the multiples of \<open>2 ^ (e - 52)\<close>, and below \<open>2 ^ - 1022\<close> the spacing stays
  \<open>2 ^ - 1074\<close>. Infinities are not modelled: no value of the poll loop comes near them.
\<close>

fun log2_floor :: "nat \<Rightarrow> nat" where
  "log2_floor n = (if n < 2 then 0 else Suc (log2_floor (n div 2)))"

declare log2_floor.simps [simp del]

definition round_half_even :: "rat \<Rightarrow> int" where
  "round_half_even q =
     (let f = \<lfloor>q\<rfloor>; r = q - of_int f
      in if r < 1 / 2 then f else if 1 / 2 < r then f + 1 else if even f then f else f + 1)"

definition pow2 :: "int \<Rightarrow> rat" where
  "pow2 k = (if 0 \<le> k then 2 ^ nat k else 1 / 2 ^ nat (- k))"

text \<open>The exponent \<open>e\<close> with \<open>2 ^ e \<le> a < 2 ^ (e + 1)\<close>, for \<open>0 < a\<close>.\<close>

definition exponent :: "rat \<Rightarrow> int" where
  "exponent a =
     (if 1 \<le> a then int (log2_floor (nat \<lfloor>a\<rfloor>))
      else - int (Suc (log2_floor (nat \<lceil>1 / a\<rceil> - 1))))"

definition binary64 :: "rat \<Rightarrow> rat" where
  "binary64 x =
     (if x = 0 then 0
      else (let a = (if x < 0 then - x else x);
                ulp = pow2 (max (exponent a) (- 1022) - 52);
                r = of_int (round_half_even (a / ulp)) * ulp
            in if x < 0 then - r else r))"

text \<open>
  \<open>time.time() - start_time\<close>: the difference of two doubles is a double, the one nearest
  to the exact difference.
\<close>

definition elapsed :: "rat \<Rightarrow> rat \<Rightarrow> rat" where
  "elapsed now start_time = binary64 (now - start_time)"

text \<open>\<open>wait_time = min(wait_time * 1.2, 15)\<close>, the literal \<open>1.2\<close> being a double too.\<close>

definition next_wait_time :: "rat \<Rightarrow> rat" where
  "next_wait_time wait_time = min (binary64 (wait_time * binary64 (12 / 10))) 15"

text \<open>\<open>int(x)\<close> of a float truncates towards zero.\<close>

definition py_int :: "rat \<Rightarrow> int" where
  "py_int x = (if 0 \<le> x then \<lfloor>x\<rfloor> else \<lceil>x\<rceil>)"

text \<open>
  The \<open>while\<close> loop of \<open>_poll_for_result\<close>, one unit of fuel per test of its condition.
  The debug line is below the log level the constructor sets and is not recorded.
  A response with status 200 whose \<open>status\<close> is none of the four the code names falls
  through the chain of tests, and the loop goes round again without sleeping.
\<close>

fun poll_loop ::
  "env \<Rightarrow> string \<Rightarrow> nat \<Rightarrow> task_info \<Rightarrow> int \<Rightarrow> rat \<Rightarrow> rat \<Rightarrow> world \<Rightarrow> bytes option run \<times> world" where
  "poll_loop e key 0 info timeout start_time wait_time w = (Out_of_fuel, w)"
| "poll_loop e key (Suc n) info timeout start_time wait_time w =
     (case time_time e w of
        (now, w1) \<Rightarrow>
          if elapsed now start_time < of_int timeout then
            (case requests_get e (polling_url info) (Some key) w1 of
               (Raised x, w2) \<Rightarrow>
                 (Done None, logger (Error (''Polling failed: '' @ exception_text e x)) w2)
             | (Returned response, w2) \<Rightarrow>
                 if status_code response = 200 then
                   (case json response of
                      None \<Rightarrow>
                        (Done None, logger (Error (''Polling failed: '' @ exception_text e OtherError)) w2)
                    | Some result \<Rightarrow>
                        if json_status result = Some ''Ready'' then
                          (case json_sample result of
                             None \<Rightarrow>
                               (Done None,
                                logger (Error (''Polling failed: '' @ exception_text e KeyError)) w2)
                           | Some image_url \<Rightarrow>
                               (case requests_get e image_url None w2 of
                                  (Raised x, w3) \<Rightarrow>
                                    (Done None,
                                     logger (Error (''Polling failed: '' @ exception_text e x)) w3)
                                | (Returned img_response, w3) \<Rightarrow>
                                    if status_code img_response = 200
                                    then (Done (Some (content img_response)), w3)
                                    else (Done None,
                                          logger (Error (''Failed to download image: ''
                                                         @ str_int (status_code img_response))) w3)))
                        else if json_status result = Some ''Error''
                                \<or> json_status result = Some ''Content Moderated'' then
                          (let w3 = logger (Error (''Generation failed: ''
                                                   @ (if json_status result = Some ''Error''
                                                      then ''Error'' else ''Content Moderated''))) w2
                           in (Done None,
                               case json_details result of
                                 None \<Rightarrow> w3
                               | Some d \<Rightarrow> logger (Error (''Details: '' @ d)) w3))
                        else if json_status result = Some ''Pending'' then
                          (let progress = (case json_progress result of None \<Rightarrow> ''0'' | Some p \<Rightarrow> p)
                           in case time_time e w2 of
                                (t, w3) \<Rightarrow>
                                  poll_loop e key n info timeout start_time (next_wait_time wait_time)
                                    (time_sleep wait_time
                                       (logger (Info (''Generation in progress... '' @ progress
                                                      @ ''% (waited '' @ str_int (py_int (elapsed t start_time))
                                                      @ ''s)'')) w3)))
                        else poll_loop e key n info timeout start_time wait_time w2)
                 else
                   (Done None,
                    logger (Error (''Polling URL: '' @ polling_url info))
                      (logger (Error (''Polling error: '' @ str_int (status_code response) @ '' - ''
                                      @ body_text response)) w2)))
          else
            (Done None,
             logger (Error (''Generation timed out after '' @ str_int timeout @ '' seconds'')) w1))"

definition poll_for_result ::
  "env \<Rightarrow> string \<Rightarrow> nat \<Rightarrow> task_info \<Rightarrow> int \<Rightarrow> world \<Rightarrow> bytes option run \<times> world" where
  "poll_for_result e key fuel info timeout w =
     (case time_time e w of (start_time, w1) \<Rightarrow> poll_loop e key fuel info timeout start_time 2 w1)"

definition generate_image ::
  "generator \<Rightarrow> env \<Rightarrow> nat \<Rightarrow> string \<Rightarrow> FluxModel \<Rightarrow> string \<Rightarrow> bytes option \<Rightarrow> world
     \<Rightarrow> bytes option run \<times> world" where
  "generate_image g e fuel prompt m ratio reference_image w =
     (case submit_generation_request g e fuel prompt m ratio reference_image w of
        (Out_of_fuel, w1) \<Rightarrow> (Out_of_fuel, w1)
      | (Done None, w1) \<Rightarrow> (Done None, w1)
      | (Done (Some info), w1) \<Rightarrow> poll_for_result e (api_key g) fuel info 300 w1)"

section \<open>asset_generator.py: post-processing and single assets\<close>

text \<open>The body of the \<open>try\<close> of \<open>post_process_image\<close>.\<close>

definition post_process_steps :: "pillow \<Rightarrow> bytes \<Rightarrow> int \<times> int \<Rightarrow> bytes attempt" where
  "post_process_steps pil image_data target_size =
     (case Image_open image_data of
        Raised x \<Rightarrow> Raised x
      | Returned opened \<Rightarrow>
          (let img = (if mode opened \<noteq> ''RGBA'' then convert_RGBA pil opened else opened)
           in case resize_LANCZOS pil img target_size of
                Raised x \<Rightarrow> Raised x
              | Returned resized \<Rightarrow>
                  save_png (if fst target_size \<le> 64 \<and> snd target_size \<le> 64
                            then filter_SHARPEN pil resized else resized)))"

definition post_process_image :: "env \<Rightarrow> bytes \<Rightarrow> int \<times> int \<Rightarrow> world \<Rightarrow> bytes option \<times> world" where
  "post_process_image e image_data target_size w =
     (case post_process_steps (pixel_ops e) image_data target_size of
        Raised x \<Rightarrow> (None, logger (Error (''Post-processing failed: '' @ exception_text e x)) w)
      | Returned out \<Rightarrow> (Some out, w))"

text \<open>Truth value of an optional string: \<open>None\<close> and the empty string are falsy.\<close>

definition truthy :: "string option \<Rightarrow> bool" where
  "truthy s = (case s of None \<Rightarrow> False | Some t \<Rightarrow> t \<noteq> [])"

definition text_of :: "string option \<Rightarrow> string" where
  "text_of s = (case s of None \<Rightarrow> ''None'' | Some t \<Rightarrow> t)"

definition has_reference :: "filesystem \<Rightarrow> AssetSpec \<Rightarrow> bool" where
  "has_reference files_now spec =
     (truthy (reference_image_path spec) \<and> path_exists files_now (text_of (reference_image_path spec)))"

definition build_prompt :: "filesystem \<Rightarrow> AssetSpec \<Rightarrow> string option \<Rightarrow> string" where
  "build_prompt files_now spec variation =
     (if asset_type spec = ITEM_SPRITE then
        description spec @ (if truthy variation then '', '' @ text_of variation else [])
      else if asset_type spec = YETI_SPRITE then
        (if has_reference files_now spec then description spec
         else description spec @ '', white and blue fur, friendly cartoon style, clean pixel art'')
        @ (if truthy variation then '', '' @ text_of variation else [])
      else if asset_type spec = STYLE_GUIDE then description spec
      else description spec @ '', pixel art style, clean minimal design'')"

text \<open>\<open>_encode_image_to_base64\<close>: reading the file may raise; nothing catches it here.\<close>

definition encode_image_to_base64 :: "filesystem \<Rightarrow> string \<Rightarrow> bytes attempt" where
  "encode_image_to_base64 files_now image_path = read_file files_now image_path"

text \<open>The reference image of \<open>generate_asset\<close>: read only when the spec names an existing file.\<close>

definition load_reference :: "filesystem \<Rightarrow> AssetSpec \<Rightarrow> bytes option attempt" where
  "load_reference files_now spec =
     (if has_reference files_now spec
      then (case encode_image_to_base64 files_now (text_of (reference_image_path spec)) of
              Raised x \<Rightarrow> Raised x
            | Returned b \<Rightarrow> Returned (Some b))
      else Returned None)"

definition none_or_empty :: "bytes option \<Rightarrow> bool" where
  "none_or_empty b = (case b of None \<Rightarrow> True | Some c \<Rightarrow> falsy_bytes c)"

text \<open>
  \<open>generate_asset\<close>. The method has no \<open>try\<close>: an exception of the two file operations it
  performs itself leaves the call.
\<close>

definition generate_asset ::
  "generator \<Rightarrow> env \<Rightarrow> nat \<Rightarrow> AssetSpec \<Rightarrow> string option \<Rightarrow> world \<Rightarrow> bool attempt run \<times> world" where
  "generate_asset g e fuel spec variation w =
     (let prompt = build_prompt (fs w) spec variation
      in case load_reference (fs w) spec of
           Raised x \<Rightarrow> (Done (Raised x), w)
         | Returned reference_image \<Rightarrow>
             (let filename = name spec @ (if truthy variation then ''_'' @ text_of variation else [])
                             @ ''.png'';
                  w1 = logger (Info (''Prompt: '' @ prompt))
                         (logger (Info (''Model: '' @ model_value (model spec)))
                            (logger (Info (''Generating: '' @ filename)) w))
              in case generate_image g e fuel prompt (model spec) (aspect_ratio spec)
                        reference_image w1 of
                   (Out_of_fuel, w2) \<Rightarrow> (Out_of_fuel, w2)
                 | (Done image_data, w2) \<Rightarrow>
                     (case image_data of
                        None \<Rightarrow> (Done (Returned False), logger (Error ''Failed to generate image'') w2)
                      | Some raw \<Rightarrow>
                          if falsy_bytes raw
                          then (Done (Returned False), logger (Error ''Failed to generate image'') w2)
                          else
                            (case post_process_image e raw (spec_size spec) w2 of
                               (processed_data, w3) \<Rightarrow>
                                 (case processed_data of
                                    None \<Rightarrow>
                                      (Done (Returned False),
                                       logger (Error ''Failed to post-process image'') w3)
                                  | Some processed \<Rightarrow>
                                      if falsy_bytes processed
                                      then (Done (Returned False),
                                            logger (Error ''Failed to post-process image'') w3)
                                      else
                                        (let filepath = output_dir g @ ''/'' @ filename
                                         in case write_file (fs w3) filepath processed of
                                              Raised x \<Rightarrow> (Done (Raised x), w3)
                                            | Returned files_after \<Rightarrow>
                                                (Done (Returned True),
                                                 logger (Info (''Saved: '' @ filepath))
                                                   (w3\<lparr>fs := files_after\<rparr>))))))))"

section \<open>asset_generator.py: batches and edits\<close>

text \<open>
  The two loops of \<open>generate_batch\<close>, carrying \<open>success_count\<close>. An exception that leaves
  \<open>generate_asset\<close> leaves the loop and the batch: nothing here catches it.
\<close>

fun generate_variations ::
  "generator \<Rightarrow> env \<Rightarrow> nat \<Rightarrow> AssetSpec \<Rightarrow> string list \<Rightarrow> nat \<Rightarrow> world \<Rightarrow> nat attempt run \<times> world" where
  "generate_variations g e fuel spec [] success_count w = (Done (Returned success_count), w)"
| "generate_variations g e fuel spec (variation # rest) success_count w =
     (case generate_asset g e fuel spec (Some variation) w of
        (Out_of_fuel, w1) \<Rightarrow> (Out_of_fuel, w1)
      | (Done (Raised x), w1) \<Rightarrow> (Done (Raised x), w1)
      | (Done (Returned ok), w1) \<Rightarrow>
          generate_variations g e fuel spec rest (if ok then success_count + 1 else success_count)
            (time_sleep 3 w1))"

fun generate_specs ::
  "generator \<Rightarrow> env \<Rightarrow> nat \<Rightarrow> AssetSpec list \<Rightarrow> nat \<Rightarrow> world \<Rightarrow> nat attempt run \<times> world" where
  "generate_specs g e fuel [] success_count w = (Done (Returned success_count), w)"
| "generate_specs g e fuel (spec # rest) success_count w =
     (if variations spec \<noteq> None \<and> variations spec \<noteq> Some []
      then (case generate_variations g e fuel spec (case variations spec of None \<Rightarrow> [] | Some vs \<Rightarrow> vs)
                   success_count w of
              (Out_of_fuel, w1) \<Rightarrow> (Out_of_fuel, w1)
            | (Done (Raised x), w1) \<Rightarrow> (Done (Raised x), w1)
            | (Done (Returned c), w1) \<Rightarrow> generate_specs g e fuel rest c w1)
      else (case generate_asset g e fuel spec None w of
              (Out_of_fuel, w1) \<Rightarrow> (Out_of_fuel, w1)
            | (Done (Raised x), w1) \<Rightarrow> (Done (Raised x), w1)
            | (Done (Returned ok), w1) \<Rightarrow>
                generate_specs g e fuel rest (if ok then success_count + 1 else success_count)
                  (time_sleep 3 w1)))"

text \<open>
  \<open>generate_batch\<close>. For the group \<open>yeti_run\<close> the method calls
  \<open>self._generate_animation_sequence\<close>, which the class does not define.
\<close>

definition generate_batch ::
  "generator \<Rightarrow> env \<Rightarrow> nat \<Rightarrow> string \<Rightarrow> world \<Rightarrow> bool attempt run \<times> world" where
  "generate_batch g e fuel group_name w =
     (let batch_specs = filter (\<lambda>spec. batch_group spec = Some group_name) (asset_specs g)
      in if batch_specs = []
         then (Done (Returned False),
               logger (Error (''No assets found for batch group: '' @ group_name)) w)
         else
           (let w1 = logger (Info (''Generating batch: '' @ group_name)) w
            in if group_name = ''yeti_run''
               then (Done (Raised AttributeError), w1)
               else
                 (case generate_specs g e fuel batch_specs 0 w1 of
                    (Out_of_fuel, w2) \<Rightarrow> (Out_of_fuel, w2)
                  | (Done (Raised x), w2) \<Rightarrow> (Done (Raised x), w2)
                  | (Done (Returned success_count), w2) \<Rightarrow>
                      (Done (Returned (0 < success_count)),
                       logger (Info (''Batch complete: '' @ str_nat success_count
                                     @ '' assets generated'')) w2))))"

text \<open>
  \<open>Path(p).stem\<close>. \<open>Path\<close> splits at the slashes and drops empty components and single
  dots; the stem is the last component left, without its last suffix (the text from the
  last dot on, when that dot is neither the first nor the last character).
\<close>

fun split_slash :: "string \<Rightarrow> string list" where
  "split_slash [] = [[]]"
| "split_slash (c # cs) =
     (if c = CHR ''/'' then [] # split_slash cs
      else (case split_slash cs of [] \<Rightarrow> [[c]] | x # xs \<Rightarrow> (c # x) # xs))"

definition path_stem :: "string \<Rightarrow> string" where
  "path_stem p =
     (let parts = filter (\<lambda>c. c \<noteq> [] \<and> c \<noteq> ''.'') (split_slash p);
          comp = (if parts = [] then [] else last parts);
          suffix_len = Suc (length (takeWhile (\<lambda>c. c \<noteq> CHR ''.'') (rev comp)))
      in if CHR ''.'' \<in> set comp \<and> suffix_len < length comp \<and> 1 < suffix_len
         then take (length comp - suffix_len) comp else comp)"

text \<open>
  \<open>edit_image\<close>. It builds its prompt from \<open>self.style_base\<close>. The image is saved as
  downloaded, without post-processing.
\<close>

definition edit_image ::
  "generator \<Rightarrow> env \<Rightarrow> nat \<Rightarrow> string \<Rightarrow> string \<Rightarrow> string option \<Rightarrow> FluxModel \<Rightarrow> world
     \<Rightarrow> bool attempt run \<times> world" where
  "edit_image g e fuel input_image_path edit_prompt output_name_arg m w =
     (if \<not> path_exists (fs w) input_image_path
      then (Done (Returned False),
            logger (Error (''Input image not found: '' @ input_image_path)) w)
      else
        (case encode_image_to_base64 (fs w) input_image_path of
           Raised x \<Rightarrow> (Done (Raised x), w)
         | Returned input_image_b64 \<Rightarrow>
             (case attribute_text g ''style_base'' of
                Raised x \<Rightarrow> (Done (Raised x), w)
              | Returned style_base \<Rightarrow>
                  (let full_prompt = edit_prompt @ '', '' @ style_base;
                       output_name = (case output_name_arg of
                                        None \<Rightarrow> path_stem input_image_path @ ''_edited''
                                      | Some n \<Rightarrow> n);
                       w1 = logger (Info (''Output name: '' @ output_name))
                              (logger (Info (''Edit prompt: '' @ full_prompt))
                                 (logger (Info (''Editing image: '' @ input_image_path)) w))
                   in case generate_image g e fuel full_prompt m ''1:1'' (Some input_image_b64) w1 of
                        (Out_of_fuel, w2) \<Rightarrow> (Out_of_fuel, w2)
                      | (Done image_data, w2) \<Rightarrow>
                          if none_or_empty image_data
                          then (Done (Returned False), logger (Error ''Failed to edit image'') w2)
                          else
                            (let output_path = output_dir g @ ''/'' @ output_name @ ''.png''
                             in case write_file (fs w2) output_path
                                       (case image_data of None \<Rightarrow> Raw [] | Some b \<Rightarrow> b) of
                                  Raised x \<Rightarrow> (Done (Raised x), w2)
                                | Returned files_after \<Rightarrow>
                                    (Done (Returned True),
                                     logger (Info (''Edited image saved: '' @ output_path))
                                       (w2\<lparr>fs := files_after\<rparr>)))))))"

section \<open>Example inputs\<close>

text \<open>Concrete inputs on which the theorems below are instantiated.\<close>

definition example_pillow :: pillow where
  "example_pillow =
     \<lparr>to_rgba = (\<lambda>m px. case px of [r, g, b] \<Rightarrow> (r, g, b, 255) | _ \<Rightarrow> (0, 0, 0, 255)),
      lanczos = (\<lambda>old new d. replicate (fst new * snd new) (case d of [] \<Rightarrow> [0, 0, 0, 0] | px # _ \<Rightarrow> px)),
      sharpen = (\<lambda>sz d. d)\<rparr>"

definition example_image :: image where
  "example_image = \<lparr>mode = ''RGB'', img_size = (2, 1), data = [[250, 251, 252], [250, 251, 3]]\<rparr>"

definition example_files :: filesystem where
  "example_files =
     \<lparr>files = [''generated_assets/yeti_jump.png'' \<mapsto> Encoded ''PNG'' example_image],
      write_fails = (\<lambda>p. False), read_fails = (\<lambda>p. False)\<rparr>"

text \<open>The state after the constructor: the counter is 0 and nothing has happened yet.\<close>

definition initial_world :: "filesystem \<Rightarrow> world" where
  "initial_world files_now =
     \<lparr>active_requests = 0, counter_history = [], posted = [], fetched = [], clock_reads = 0,
      draws = 0, sleeps = [], logged = [], fs = files_now\<rparr>"

text \<open>
  A backend that accepts every submission and reports \<open>Ready\<close> at the first status
  request; the download is a two-pixel RGB image. The k-th clock reading is k seconds.
\<close>

definition example_env :: env where
  "example_env =
     \<lparr>post_reply = (\<lambda>k. Returned (Response 200 (Some (Submit_json (Some ''job-1'') None)) (Raw []) [])),
      get_reply = (\<lambda>k. if k = 0
                        then Returned (Response 200
                               (Some (Poll_json (Some ''Ready'') (Some ''https://delivery.example/job-1.png'') None None))
                               (Raw []) [])
                        else Returned (Response 200 None (Encoded ''PNG'' example_image) [])),
      clock = (\<lambda>k. of_nat k),
      uniform_5_15 = (\<lambda>k. 5),
      pixel_ops = example_pillow,
      exception_text = (\<lambda>x. ''error'')\<rparr>"

text \<open>
  A backend that answers the first k submissions with 429 and every later one with 200,
  and one that answers every submission with 402.
\<close>

definition rate_limited_env :: "nat \<Rightarrow> env" where
  "rate_limited_env k =
     example_env\<lparr>post_reply :=
       (\<lambda>j. if j < k then Returned (Response 429 None (Raw []) ''Too Many Requests'')
            else Returned (Response 200 (Some (Submit_json (Some ''job-1'') None)) (Raw []) []))\<rparr>"

definition no_credit_env :: env where
  "no_credit_env =
     example_env\<lparr>post_reply := (\<lambda>j. Returned (Response 402 None (Raw []) ''Payment Required''))\<rparr>"

text \<open>
  A job handle, and three more backends: one whose job stays \<open>Pending\<close>; one that reports
  \<open>Ready\<close> but whose download link answers 404; one whose job never leaves \<open>Pending\<close> and
  \<open>Task not found\<close>, with a clock that advances 60 seconds per reading.
\<close>

definition example_task :: task_info where
  "example_task = \<lparr>task_id = ''job-1'', polling_url = ''https://api.bfl.ai/v1/get_result?id=job-1''\<rparr>"

definition pending_env :: env where
  "pending_env =
     example_env\<lparr>get_reply :=
       (\<lambda>k. Returned (Response 200 (Some (Poll_json (Some ''Pending'') None None (Some ''0.5'')))
                         (Raw []) []))\<rparr>"

definition download_404_env :: env where
  "download_404_env =
     example_env\<lparr>get_reply :=
       (\<lambda>k. if k = 0
            then Returned (Response 200
                   (Some (Poll_json (Some ''Ready'') (Some ''https://delivery.example/job-1.png'') None None))
                   (Raw []) [])
            else Returned (Response 404 None (Raw []) ''Not Found''))\<rparr>"

definition stalled_env :: env where
  "stalled_env =
     example_env\<lparr>get_reply :=
       (\<lambda>k. if even k
            then Returned (Response 200 (Some (Poll_json (Some ''Pending'') None None None)) (Raw []) [])
            else Returned (Response 200 (Some (Poll_json (Some ''Task not found'') None None None))
                             (Raw []) [])),
       clock := (\<lambda>k. of_nat k * 60)\<rparr>"

text \<open>
  The first two specs of the catalogue (the style guide, and the first of the batch
  \<open>yeti\<close>); a backend whose job always ends in \<open>Error\<close>; and a file system in which no file
  can be opened for writing (the output directory was removed or is read-only).
\<close>

definition style_guide_spec :: AssetSpec where
  "style_guide_spec = hd load_asset_specs"

definition error_env :: env where
  "error_env =
     example_env\<lparr>get_reply :=
       (\<lambda>k. Returned (Response 200
                (Some (Poll_json (Some ''Error'') None (Some ''generation failed'') None)) (Raw []) []))\<rparr>"

definition unwritable_files :: filesystem where
  "unwritable_files = example_files\<lparr>write_fails := (\<lambda>p. True)\<rparr>"

text \<open>
  A file system in which the path \<open>generated_assets\<close> exists and cannot be read as a file:
  it is the output directory.
\<close>

definition directory_files :: filesystem where
  "directory_files =
     \<lparr>files = [''generated_assets'' \<mapsto> Raw [],
               ''generated_assets/yeti_jump.png'' \<mapsto> Encoded ''PNG'' example_image],
      write_fails = (\<lambda>p. p = ''generated_assets''),
      read_fails = (\<lambda>p. p = ''generated_assets'')\<rparr>"

definition yeti_frame1_spec :: AssetSpec where
  "yeti_frame1_spec = hd (tl load_asset_specs)"

section \<open>Notions used in the statements\<close>

text \<open>
  The body a submission posts, the state right after its POST was sent (counter raised,
  request logged and recorded), and the handle built from a 200 response.
\<close>

definition sent_body :: "string \<Rightarrow> FluxModel \<Rightarrow> string \<Rightarrow> bytes option \<Rightarrow> post_data" where
  "sent_body prompt m ratio ref =
     Post_data prompt ratio
       (case ref of None \<Rightarrow> None
        | Some b \<Rightarrow> if \<not> falsy_bytes b \<and> (m = KONTEXT_PRO \<or> m = KONTEXT_MAX) then Some b else None)"

definition entered :: "generator \<Rightarrow> string \<Rightarrow> FluxModel \<Rightarrow> string \<Rightarrow> bytes option \<Rightarrow> world \<Rightarrow> world" where
  "entered g prompt m ratio ref w =
     w\<lparr>active_requests := active_requests w + 1,
       counter_history := counter_history w @ [active_requests w + 1],
       logged := logged w @ [Info (''Submitting request to '' @ base_url g @ ''/v1/'' @ model_value m)],
       posted := posted w @ [(base_url g @ ''/v1/'' @ model_value m, api_key g,
                              sent_body prompt m ratio ref)]\<rparr>"

definition handle_of :: "generator \<Rightarrow> submit_json \<Rightarrow> string \<Rightarrow> task_info" where
  "handle_of g result i =
     \<lparr>task_id = i,
      polling_url = (case json_polling_url result of
                       None \<Rightarrow> base_url g @ ''/v1/get_result?id='' @ i
                     | Some u \<Rightarrow> if u = [] then base_url g @ ''/v1/get_result?id='' @ i else u)\<rparr>"

text \<open>
  The interval of the poll loop after n status requests in a row were answered \<open>Pending\<close>.
\<close>

fun backoff :: "nat \<Rightarrow> rat" where
  "backoff 0 = 2"
| "backoff (Suc n) = next_wait_time (backoff n)"

text \<open>
  A status response that makes the poll loop sleep and go on (\<open>Pending\<close>), and one that
  makes it go on at once (status 200 with a status the code does not name).
\<close>

definition is_pending :: "poll_json response attempt \<Rightarrow> bool" where
  "is_pending a =
     (case a of Raised x \<Rightarrow> False
      | Returned r \<Rightarrow>
          status_code r = 200
          \<and> (case json r of None \<Rightarrow> False | Some res \<Rightarrow> json_status res = Some ''Pending''))"

definition is_unrecognised :: "poll_json response attempt \<Rightarrow> bool" where
  "is_unrecognised a =
     (case a of Raised x \<Rightarrow> False
      | Returned r \<Rightarrow>
          status_code r = 200
          \<and> (case json r of None \<Rightarrow> False
              | Some res \<Rightarrow> json_status res \<noteq> Some ''Ready'' \<and> json_status res \<noteq> Some ''Error''
                            \<and> json_status res \<noteq> Some ''Content Moderated''
                            \<and> json_status res \<noteq> Some ''Pending''))"

text \<open>
  \<open>idle_rounds e timeout start n c f\<close>: from the c-th clock reading and the f-th GET on,
  n rounds of the poll loop in a row pass the test of the loop and are answered by one of
  these two kinds of response, and the test after them fails. A \<open>Pending\<close> round uses two
  clock readings (the test, the log line), the other kind one.
\<close>

fun idle_rounds :: "env \<Rightarrow> int \<Rightarrow> rat \<Rightarrow> nat \<Rightarrow> nat \<Rightarrow> nat \<Rightarrow> bool" where
  "idle_rounds e timeout start_time 0 c f = (\<not> elapsed (clock e c) start_time < of_int timeout)"
| "idle_rounds e timeout start_time (Suc n) c f =
     (elapsed (clock e c) start_time < of_int timeout
      \<and> (if is_pending (get_reply e f) then idle_rounds e timeout start_time n (c + 2) (Suc f)
         else is_unrecognised (get_reply e f) \<and> idle_rounds e timeout start_time n (Suc c) (Suc f)))"

text \<open>The line \<open>_poll_for_result\<close> logs when it gives up.\<close>

definition timed_out :: "int \<Rightarrow> log_event" where
  "timed_out timeout = Error (''Generation timed out after '' @ str_int timeout @ '' seconds'')"

text \<open>
  The file name \<open>generate_asset\<close> derives from a spec and a variation, and the state after
  its three opening log lines.
\<close>

definition asset_filename :: "AssetSpec \<Rightarrow> string option \<Rightarrow> string" where
  "asset_filename spec variation =
     name spec @ (if truthy variation then ''_'' @ text_of variation else []) @ ''.png''"

definition announced :: "AssetSpec \<Rightarrow> string option \<Rightarrow> world \<Rightarrow> world" where
  "announced spec variation w =
     logger (Info (''Prompt: '' @ build_prompt (fs w) spec variation))
       (logger (Info (''Model: '' @ model_value (model spec)))
          (logger (Info (''Generating: '' @ asset_filename spec variation)) w))"

section \<open>Properties of make_transparent\<close>

lemma whiten_item_rgba:
  "length px = 4 \<Longrightarrow> whiten_item px = Returned (white_to_transparent px)"
proof -
  assume "length px = 4"
  then obtain r g b a where "px = [r, g, b, a]"
    by (auto simp: length_Suc_conv numeral_eq_Suc)
  then show ?thesis
    by (simp add: whiten_item_def)
qed

lemma whiten_loop_rgba:
  "\<forall>px \<in> set xs. length px = 4 \<Longrightarrow>
   whiten_loop acc xs = Returned (acc @ map white_to_transparent xs)"
  by (induction xs arbitrary: acc) (simp_all add: whiten_item_rgba)

lemma convert_RGBA_bands: "\<forall>px \<in> set (data (convert_RGBA pil img)). length px = 4"
  by (auto simp: convert_RGBA_def split: prod.splits)

lemma convert_RGBA_fields:
  "mode (convert_RGBA pil img) = ''RGBA''" "img_size (convert_RGBA pil img) = img_size img"
  by (simp_all add: convert_RGBA_def)

text \<open>
  Claim C10. On a readable image file of positive size and a writable output path,
  \<open>make_transparent\<close> returns, and the file it writes is a PNG whose image has the mode
  RGBA, the size of the input, and for pixels those of the RGBA-converted input, each one
  mapped on its own: a pixel whose red, green and blue are all above 240 becomes
  \<open>(255, 255, 255, 0)\<close>, every other pixel stays as it is. No other file changes.
\<close>

theorem make_transparent_pixels:
  assumes "read_file fs0 input_path = Returned raw"
    and "Image_open raw = Returned opened"
    and "0 < fst (img_size opened)" and "0 < snd (img_size opened)"
    and "out = (case out_arg of
                  None \<Rightarrow> (case splitext input_path of (base, ext) \<Rightarrow> base @ ''_transparent'' @ ext)
                | Some p \<Rightarrow> p)"
    and "\<not> write_fails fs0 out"
  shows "\<exists>fs1 png.
           make_transparent pil fs0 input_path out_arg
             = Returned (fs1, ''Converted: '' @ input_path @ '' -> '' @ out)
         \<and> files fs1 out = Some (Encoded ''PNG'' png)
         \<and> (\<forall>p. p \<noteq> out \<longrightarrow> files fs1 p = files fs0 p)
         \<and> mode png = ''RGBA''
         \<and> img_size png = img_size opened
         \<and> data png = map white_to_transparent (data (convert_RGBA pil opened))"
proof -
  let ?conv = "convert_RGBA pil opened"
  let ?png = "?conv\<lparr>data := map white_to_transparent (data ?conv)\<rparr>"
  have loop: "whiten_loop [] (data ?conv) = Returned (map white_to_transparent (data ?conv))"
    using whiten_loop_rgba [OF convert_RGBA_bands, of "[]" pil opened] by simp
  have save: "save_png ?png = Returned (Encoded ''PNG'' ?png)"
    using assms(3,4) by (simp add: save_png_def png_modes_def convert_RGBA_fields)
  have "make_transparent pil fs0 input_path out_arg
          = Returned (fs0\<lparr>files := (files fs0)(out \<mapsto> Encoded ''PNG'' ?png)\<rparr>,
                      ''Converted: '' @ input_path @ '' -> '' @ out)"
    using assms(1,2,6) loop save
    by (simp add: make_transparent_def Let_def write_file_def assms(5))
  then show ?thesis
    by (intro exI [of _ "fs0\<lparr>files := (files fs0)(out \<mapsto> Encoded ''PNG'' ?png)\<rparr>"] exI [of _ ?png])
       (simp add: convert_RGBA_fields)
qed

lemma example_read:
  "read_file example_files ''generated_assets/yeti_jump.png'' = Returned (Encoded ''PNG'' example_image)"
  by (simp add: read_file_def example_files_def)

lemma example_out:
  "(case splitext ''generated_assets/yeti_jump.png'' of (base, ext) \<Rightarrow> base @ ''_transparent'' @ ext)
     = ''generated_assets/yeti_jump_transparent.png''"
  by (simp add: splitext_def Let_def)

text \<open>The theorem at a two-pixel RGB image: the near-white pixel turns transparent.\<close>

theorem make_transparent_pixels_witness:
  "\<exists>fs1 png.
     make_transparent example_pillow example_files ''generated_assets/yeti_jump.png'' None
       = Returned (fs1, ''Converted: generated_assets/yeti_jump.png -> generated_assets/yeti_jump_transparent.png'')
   \<and> files fs1 ''generated_assets/yeti_jump_transparent.png'' = Some (Encoded ''PNG'' png)
   \<and> mode png = ''RGBA'' \<and> img_size png = (2, 1)
   \<and> data png = [[255, 255, 255, 0], [250, 251, 3, 255]]"
proof -
  have a: "Image_open (Encoded ''PNG'' example_image) = Returned example_image"
    by (simp add: Image_open_def)
  have b: "0 < fst (img_size example_image)" "0 < snd (img_size example_image)"
    by (simp_all add: example_image_def)
  have c: "''generated_assets/yeti_jump_transparent.png''
           = (case None of
                None \<Rightarrow> (case splitext ''generated_assets/yeti_jump.png'' of
                           (base, ext) \<Rightarrow> base @ ''_transparent'' @ ext)
              | Some p \<Rightarrow> p)"
    by (simp add: splitext_def Let_def)
  have d: "\<not> write_fails example_files ''generated_assets/yeti_jump_transparent.png''"
    by (simp add: example_files_def)
  have e: "map white_to_transparent (data (convert_RGBA example_pillow example_image))
           = [[255, 255, 255, 0], [250, 251, 3, 255]]"
    by (simp add: convert_RGBA_def example_pillow_def example_image_def)
  from make_transparent_pixels [OF example_read a b c d, of example_pillow]
  obtain fs1 png where h:
    "make_transparent example_pillow example_files ''generated_assets/yeti_jump.png'' None
       = Returned (fs1, ''Converted: '' @ ''generated_assets/yeti_jump.png'' @ '' -> ''
                        @ ''generated_assets/yeti_jump_transparent.png'')"
    "files fs1 ''generated_assets/yeti_jump_transparent.png'' = Some (Encoded ''PNG'' png)"
    "mode png = ''RGBA''"
    "img_size png = img_size example_image"
    "data png = map white_to_transparent (data (convert_RGBA example_pillow example_image))"
    by blast
  have "img_size png = (2, 1)"
    using h(4) by (simp add: example_image_def)
  moreover have "data png = [[255, 255, 255, 0], [250, 251, 3, 255]]"
    using h(5) e by simp
  ultimately show ?thesis
    using h(1,2,3) by (intro exI [of _ fs1] exI [of _ png]) simp
qed

section \<open>Properties of post_process_image\<close>





section \<open>Properties of edit_image\<close>

text \<open>
  Claim C9, as the code has it. \<open>style_base\<close> is not an attribute of the generator. Every
  call of \<open>edit_image\<close> on an input path that exists and can be read ends with the
  \<open>AttributeError\<close> of \<open>self.style_base\<close>, which nothing catches, with the state as it
  was: no request sent, nothing logged, nothing written, \<open>True\<close> not returned. This holds
  for every fuel: the call ends before any loop starts.
\<close>

theorem edit_image_style_base:
  assumes "path_exists (fs w) input_image_path" and "\<not> read_fails (fs w) input_image_path"
  shows "\<not> has_attribute ''style_base''
         \<and> edit_image g e fuel input_image_path edit_prompt output_name m w
             = (Done (Raised AttributeError), w)"
  using assms
  by (auto simp: edit_image_def path_exists_def encode_image_to_base64_def read_file_def
      attribute_text_def has_attribute_def instance_attributes_def class_attributes_def)

text \<open>The theorem at an existing, readable image.\<close>

theorem edit_image_style_base_witness:
  "path_exists (fs (initial_world example_files)) ''generated_assets/yeti_jump.png''
   \<and> \<not> read_fails (fs (initial_world example_files)) ''generated_assets/yeti_jump.png''
   \<and> edit_image (FluxAssetGenerator_init ''key'' ''global'') example_env 1000
        ''generated_assets/yeti_jump.png'' ''make the fur brighter'' None KONTEXT_PRO
        (initial_world example_files)
      = (Done (Raised AttributeError), initial_world example_files)"
proof -
  have ex: "path_exists (fs (initial_world example_files)) ''generated_assets/yeti_jump.png''"
    by (simp add: path_exists_def initial_world_def example_files_def)
  have rd: "\<not> read_fails (fs (initial_world example_files)) ''generated_assets/yeti_jump.png''"
    by (simp add: initial_world_def example_files_def)
  from edit_image_style_base [OF ex rd] ex rd show ?thesis
    by simp
qed

text \<open>
  The claim as stated fails at an existing path that cannot be read. The output directory
  exists, so the test of \<open>os.path.exists\<close> passes; opening it for reading raises an
  \<open>OSError\<close> (\<open>IsADirectoryError\<close>) in \<open>_encode_image_to_base64\<close>, one statement before
  \<open>self.style_base\<close> is read. The call ends with that exception, not with an
  \<open>AttributeError\<close>.
\<close>

theorem edit_image_style_base_counterexample:
  "path_exists (fs (initial_world directory_files)) ''generated_assets''
   \<and> edit_image (FluxAssetGenerator_init ''key'' ''global'') example_env 1000
        ''generated_assets'' ''make the fur brighter'' None KONTEXT_PRO
        (initial_world directory_files)
      = (Done (Raised OSError), initial_world directory_files)
   \<and> OSError \<noteq> AttributeError"
  by (simp add: edit_image_def path_exists_def encode_image_to_base64_def read_file_def
      initial_world_def directory_files_def)

section \<open>Properties of the submitter\<close>

lemmas world_ops = time_sleep_def logger_def set_active_requests_def release_def
  requests_post_def random_uniform_def

lemma wait_for_rate_limit_blocked:
  "max_requests g m \<le> active_requests w \<Longrightarrow>
   \<exists>k. wait_for_rate_limit g n m w = (Out_of_fuel, w\<lparr>sleeps := sleeps w @ replicate k 1\<rparr>)"
proof (induction n arbitrary: w)
  case 0
  show ?case by (intro exI [of _ 0]) simp
next
  case (Suc n)
  from Suc.prems have "max_requests g m \<le> active_requests (time_sleep 1 w)"
    by (simp add: time_sleep_def)
  from Suc.IH [OF this] obtain k where
    "wait_for_rate_limit g n m (time_sleep 1 w)
       = (Out_of_fuel, (time_sleep 1 w)\<lparr>sleeps := sleeps (time_sleep 1 w) @ replicate k 1\<rparr>)"
    by blast
  with Suc.prems show ?case
    by (intro exI [of _ "Suc k"]) (simp add: time_sleep_def replicate_append_same)
qed

lemma wait_for_rate_limit_free:
  "active_requests w < max_requests g m \<Longrightarrow> wait_for_rate_limit g (Suc n) m w = (Done (), w)"
  by simp

lemma submit_blocked:
  assumes "max_requests g m \<le> active_requests w"
  shows "\<exists>k. submit_generation_request g e fuel prompt m ratio ref w
           = (Out_of_fuel, w\<lparr>sleeps := sleeps w @ replicate k 1\<rparr>)"
proof (cases fuel)
  case 0
  then show ?thesis by (intro exI [of _ 0]) simp
next
  case (Suc n)
  from wait_for_rate_limit_blocked [OF assms, of "Suc n"] obtain k where
    "wait_for_rate_limit g (Suc n) m w = (Out_of_fuel, w\<lparr>sleeps := sleeps w @ replicate k 1\<rparr>)"
    by blast
  with Suc show ?thesis
    by (intro exI [of _ k]) (simp del: wait_for_rate_limit.simps)
qed

lemma submit_402:
  assumes "active_requests w < max_requests g m"
    and "post_reply e (length (posted w)) = Returned r" and "status_code r = 402"
  shows "submit_generation_request g e (Suc n) prompt m ratio ref w
           = (Done None, release (logger (Error ''Insufficient credits'') (entered g prompt m ratio ref w)))"
  using assms
  by (simp add: Let_def world_ops entered_def sent_body_def)

lemma submit_429:
  assumes "active_requests w < max_requests g m"
    and "post_reply e (length (posted w)) = Returned r" and "status_code r = 429"
  shows "submit_generation_request g e (Suc n) prompt m ratio ref w
           = (case submit_generation_request g e n prompt m ratio ref
                     (time_sleep (uniform_5_15 e (draws w))
                        ((logger (Warning ''Rate limited, waiting...'') (entered g prompt m ratio ref w))
                           \<lparr>draws := Suc (draws w)\<rparr>)) of
                (Out_of_fuel, w7) \<Rightarrow> (Out_of_fuel, w7)
              | (Done res, w7) \<Rightarrow> (Done res, release w7))"
  using assms
  by (simp add: Let_def world_ops entered_def sent_body_def)


lemma submit_not_429:
  assumes "active_requests w < max_requests g m"
    and "\<forall>r. post_reply e (length (posted w)) = Returned r \<longrightarrow> status_code r \<noteq> 429"
  shows "\<exists>res evs. submit_generation_request g e (Suc n) prompt m ratio ref w
           = (Done res, release ((entered g prompt m ratio ref w)
                                   \<lparr>logged := logged (entered g prompt m ratio ref w) @ evs\<rparr>))"
proof (cases "post_reply e (length (posted w))")
  case (Raised x)
  with assms(1) show ?thesis
    by (intro exI [of _ None] exI [of _ "[Error (''Request failed: '' @ exception_text e x)]"])
       (simp add: Let_def world_ops entered_def sent_body_def)
next
  case (Returned r)
  with assms(2) have n429: "status_code r \<noteq> 429" by simp
  show ?thesis
  proof (cases "status_code r = 200")
    case False
    show ?thesis
    proof (cases "status_code r = 402")
      case True
      with assms(1) Returned show ?thesis
        by (intro exI [of _ None] exI [of _ "[Error ''Insufficient credits'']"])
           (simp add: Let_def world_ops entered_def sent_body_def)
    next
      case no402: False
      with assms(1) Returned False n429 show ?thesis
        by (intro exI [of _ None]
              exI [of _ "[Error (''API Error: '' @ str_int (status_code r) @ '' - '' @ body_text r)]"])
           (simp add: Let_def world_ops entered_def sent_body_def)
    qed
  next
    case True
    show ?thesis
    proof (cases "json r")
      case None
      with assms(1) Returned True show ?thesis
        by (intro exI [of _ None] exI [of _ "[Error (''Request failed: '' @ exception_text e OtherError)]"])
           (simp add: Let_def world_ops entered_def sent_body_def)
    next
      case (Some result)
      show ?thesis
      proof (cases "json_id result")
        case None
        with assms(1) Returned True Some show ?thesis
          by (intro exI [of _ None] exI [of _ "[Error (''Request failed: '' @ exception_text e KeyError)]"])
             (simp add: Let_def world_ops entered_def sent_body_def)
      next
        case (Some i)
        let ?url = "case json_polling_url result of
                      None \<Rightarrow> base_url g @ ''/v1/get_result?id='' @ i
                    | Some u \<Rightarrow> if u = [] then base_url g @ ''/v1/get_result?id='' @ i else u"
        from assms(1) Returned True \<open>json r = Some result\<close> Some show ?thesis
          by (intro exI [of _ "Some \<lparr>task_id = i, polling_url = ?url\<rparr>"]
                exI [of _ "[Info (''Task submitted successfully. ID: '' @ i),
                            Info (''Polling URL: '' @ ?url)]"])
             (simp add: Let_def world_ops entered_def sent_body_def split: option.splits)
      qed
    qed
  qed
qed

lemma max_requests_init:
  "max_requests (FluxAssetGenerator_init key region) m = (if m = KONTEXT_MAX then 6 else 24)"
  by (simp add: max_requests_def FluxAssetGenerator_init_def)

lemma initial_world_fields:
  "active_requests (initial_world f) = 0" "counter_history (initial_world f) = []"
  "posted (initial_world f) = []" "fetched (initial_world f) = []"
  "clock_reads (initial_world f) = 0" "draws (initial_world f) = 0"
  "sleeps (initial_world f) = []" "logged (initial_world f) = []" "fs (initial_world f) = f"
  by (simp_all add: initial_world_def)

lemma submit_200:
  assumes "active_requests w < max_requests g m"
    and "post_reply e (length (posted w)) = Returned r" and "status_code r = 200"
    and "json r = Some result" and "json_id result = Some i"
  shows "submit_generation_request g e (Suc n) prompt m ratio ref w
           = (Done (Some (handle_of g result i)),
              release ((entered g prompt m ratio ref w)
                \<lparr>logged := logged (entered g prompt m ratio ref w)
                     @ [Info (''Task submitted successfully. ID: '' @ i),
                        Info (''Polling URL: '' @ polling_url (handle_of g result i))]\<rparr>))"
  using assms
  by (simp add: Let_def world_ops entered_def sent_body_def handle_of_def split: option.splits)

text \<open>
  Claim C2. A submission that gets past the throttle and whose POST is answered with 402
  returns \<open>None\<close> at once: that one POST is the only request it sends, it does not sleep
  or draw a retry delay, it logs \<open>Insufficient credits\<close>, and the counter is back at its
  value on entry.
\<close>

theorem submit_402_no_retry:
  assumes "active_requests w < max_requests g m"
    and "post_reply e (length (posted w)) = Returned r" and "status_code r = 402"
  shows "\<exists>w1. submit_generation_request g e (Suc n) prompt m ratio ref w = (Done None, w1)
           \<and> posted w1 = posted w @ [(base_url g @ ''/v1/'' @ model_value m, api_key g,
                                        sent_body prompt m ratio ref)]
           \<and> sleeps w1 = sleeps w \<and> draws w1 = draws w
           \<and> active_requests w1 = active_requests w
           \<and> logged w1 = logged w
                @ [Info (''Submitting request to '' @ base_url g @ ''/v1/'' @ model_value m),
                   Error ''Insufficient credits'']"
  by (simp add: submit_402 [OF assms] world_ops entered_def del: submit_generation_request.simps)

text \<open>The theorem at a fresh generator and a backend that always answers 402.\<close>

theorem submit_402_no_retry_witness:
  "\<exists>w1. submit_generation_request (FluxAssetGenerator_init ''key'' ''global'') no_credit_env 1
           ''a yeti'' KONTEXT_PRO ''1:1'' None (initial_world example_files) = (Done None, w1)
     \<and> length (posted w1) = 1 \<and> sleeps w1 = [] \<and> active_requests w1 = 0
     \<and> logged w1 = [Info ''Submitting request to https://api.bfl.ai/v1/flux-kontext-pro'',
                     Error ''Insufficient credits'']"
proof -
  have a: "active_requests (initial_world example_files)
             < max_requests (FluxAssetGenerator_init ''key'' ''global'') KONTEXT_PRO"
    by (simp add: max_requests_init initial_world_fields)
  have b: "post_reply no_credit_env (length (posted (initial_world example_files)))
             = Returned (Response 402 None (Raw []) ''Payment Required'')"
    by (simp add: no_credit_env_def)
  have c: "status_code (Response 402 None (Raw []) ''Payment Required'' :: submit_json response) = 402"
    by simp
  from submit_402_no_retry [OF a b c, where n = 0 and prompt = "''a yeti''" and ratio = "''1:1''"
      and ref = None]
  obtain w1 where w1:
    "submit_generation_request (FluxAssetGenerator_init ''key'' ''global'') no_credit_env (Suc 0)
       ''a yeti'' KONTEXT_PRO ''1:1'' None (initial_world example_files) = (Done None, w1)"
    "posted w1 = posted (initial_world example_files)
        @ [(base_url (FluxAssetGenerator_init ''key'' ''global'') @ ''/v1/'' @ model_value KONTEXT_PRO,
            api_key (FluxAssetGenerator_init ''key'' ''global''),
            sent_body ''a yeti'' KONTEXT_PRO ''1:1'' None)]"
    "sleeps w1 = sleeps (initial_world example_files)"
    "active_requests w1 = active_requests (initial_world example_files)"
    "logged w1 = logged (initial_world example_files)
        @ [Info (''Submitting request to '' @ base_url (FluxAssetGenerator_init ''key'' ''global'')
                 @ ''/v1/'' @ model_value KONTEXT_PRO),
           Error ''Insufficient credits'']"
    by blast
  have "length (posted w1) = 1" using w1(2) by (simp add: initial_world_fields)
  moreover have "logged w1 = [Info ''Submitting request to https://api.bfl.ai/v1/flux-kontext-pro'',
                              Error ''Insufficient credits'']"
    using w1(5) by (simp add: initial_world_fields FluxAssetGenerator_init_def)
  ultimately show ?thesis
    using w1(1,3,4) by (intro exI [of _ w1]) (simp add: initial_world_fields)
qed

text \<open>
  The retry on 429 is a recursive call made while the counter is still raised. Each level
  of the retry holds one unit of the counter, so the retry below the ceiling works: after
  k answers of 429 and one of 200 the call returns the handle, having sent the same request
  k + 1 times and slept the k drawn delays in between.
\<close>

lemma submit_retries_then_succeeds:
  assumes "\<forall>j < k. \<exists>r. post_reply e (length (posted w) + j) = Returned r \<and> status_code r = 429"
    and "post_reply e (length (posted w) + k) = Returned r" and "status_code r = 200"
    and "json r = Some result" and "json_id result = Some i"
    and "active_requests w + int k < max_requests g m"
  shows "\<exists>w1. submit_generation_request g e (Suc k + extra) prompt m ratio ref w
                 = (Done (Some (handle_of g result i)), w1)
           \<and> posted w1 = posted w @ replicate (Suc k)
                 (base_url g @ ''/v1/'' @ model_value m, api_key g, sent_body prompt m ratio ref)
           \<and> sleeps w1 = sleeps w @ map (\<lambda>j. uniform_5_15 e (draws w + j)) [0..<k]
           \<and> active_requests w1 = active_requests w"
  using assms
proof (induction k arbitrary: w)
  case 0
  then have free: "active_requests w < max_requests g m" by simp
  from 0 have r: "post_reply e (length (posted w)) = Returned r" by simp
  show ?case
    by (simp add: submit_200 [OF free r 0(3,4,5)] world_ops entered_def
        del: submit_generation_request.simps)
next
  case (Suc k)
  then have free: "active_requests w < max_requests g m" by simp
  from Suc.prems(1) obtain r0 where r0:
    "post_reply e (length (posted w)) = Returned r0" "status_code r0 = 429"
    by force
  let ?w' = "time_sleep (uniform_5_15 e (draws w))
               ((logger (Warning ''Rate limited, waiting...'') (entered g prompt m ratio ref w))
                  \<lparr>draws := Suc (draws w)\<rparr>)"
  have w': "length (posted ?w') = Suc (length (posted w))"
    "active_requests ?w' = active_requests w + 1"
    "posted ?w' = posted w @ [(base_url g @ ''/v1/'' @ model_value m, api_key g,
                               sent_body prompt m ratio ref)]"
    "sleeps ?w' = sleeps w @ [uniform_5_15 e (draws w)]"
    "draws ?w' = Suc (draws w)"
    by (simp_all add: world_ops entered_def)
  have a: "\<forall>j < k. \<exists>r. post_reply e (length (posted ?w') + j) = Returned r \<and> status_code r = 429"
    using Suc.prems(1) by (auto simp: w'(1) dest: spec [of _ "Suc j" for j])
  have b: "post_reply e (length (posted ?w') + k) = Returned r"
    using Suc.prems(2) by (simp add: w'(1))
  have c: "active_requests ?w' + int k < max_requests g m"
    using Suc.prems(6) by (simp add: w'(2))
  from Suc.IH [OF a b Suc.prems(3,4,5) c] obtain w7 where w7:
    "submit_generation_request g e (Suc k + extra) prompt m ratio ref ?w'
       = (Done (Some (handle_of g result i)), w7)"
    "posted w7 = posted ?w' @ replicate (Suc k)
        (base_url g @ ''/v1/'' @ model_value m, api_key g, sent_body prompt m ratio ref)"
    "sleeps w7 = sleeps ?w' @ map (\<lambda>j. uniform_5_15 e (draws ?w' + j)) [0..<k]"
    "active_requests w7 = active_requests ?w'"
    by blast
  have "submit_generation_request g e (Suc (Suc k) + extra) prompt m ratio ref w
          = (Done (Some (handle_of g result i)), release w7)"
    using submit_429 [OF free r0, of "Suc k + extra" prompt ratio ref] w7(1) by simp
  moreover have "posted (release w7) = posted w @ replicate (Suc (Suc k))
        (base_url g @ ''/v1/'' @ model_value m, api_key g, sent_body prompt m ratio ref)"
    using w7(2) by (simp add: world_ops entered_def replicate_append_same)
  moreover have "sleeps (release w7)
                   = sleeps w @ map (\<lambda>j. uniform_5_15 e (draws w + j)) [0..<Suc k]"
    using w7(3) by (simp add: world_ops entered_def map_upt_Suc del: upt_Suc)
  moreover have "active_requests (release w7) = active_requests w"
    using w7(4) by (simp add: world_ops entered_def)
  ultimately show ?case by blast
qed

text \<open>
  Once the retries hold as many units as the ceiling allows, the next level waits in
  \<open>_wait_for_rate_limit\<close> for a counter that only the suspended levels above it could
  lower: the call never returns, and the next POST is never sent.
\<close>

lemma submit_429_deadlock:
  assumes "\<forall>j < k. \<exists>r. post_reply e (length (posted w) + j) = Returned r \<and> status_code r = 429"
    and "max_requests g m \<le> active_requests w + int k"
  shows "fst (submit_generation_request g e fuel prompt m ratio ref w) = Out_of_fuel
         \<and> length (posted (snd (submit_generation_request g e fuel prompt m ratio ref w)))
             \<le> length (posted w) + k"
  using assms
proof (induction k arbitrary: w fuel)
  case 0
  then have "max_requests g m \<le> active_requests w" by simp
  from submit_blocked [OF this, of e fuel prompt ratio ref] show ?case by auto
next
  case (Suc k)
  show ?case
  proof (cases "max_requests g m \<le> active_requests w")
    case True
    from submit_blocked [OF True, of e fuel prompt ratio ref] show ?thesis by auto
  next
    case False
    then have free: "active_requests w < max_requests g m" by simp
    show ?thesis
    proof (cases fuel)
      case 0
      then show ?thesis by simp
    next
      case (Suc n)
      from Suc.prems(1) obtain r where r:
        "post_reply e (length (posted w)) = Returned r" "status_code r = 429"
        by force
      let ?w' = "time_sleep (uniform_5_15 e (draws w))
                   ((logger (Warning ''Rate limited, waiting...'') (entered g prompt m ratio ref w))
                      \<lparr>draws := Suc (draws w)\<rparr>)"
      have len: "length (posted ?w') = Suc (length (posted w))"
        and act: "active_requests ?w' = active_requests w + 1"
        by (simp_all add: world_ops entered_def)
      have "\<forall>j < k. \<exists>r. post_reply e (length (posted ?w') + j) = Returned r \<and> status_code r = 429"
        using Suc.prems(1) by (auto simp: len dest: spec [of _ "Suc j" for j])
      moreover have "max_requests g m \<le> active_requests ?w' + int k"
        using Suc.prems(2) by (simp add: act)
      ultimately have inner:
        "fst (submit_generation_request g e n prompt m ratio ref ?w') = Out_of_fuel"
        "length (posted (snd (submit_generation_request g e n prompt m ratio ref ?w')))
           \<le> length (posted ?w') + k"
        using Suc.IH [of ?w' n] by simp_all
      from inner(1) obtain w7 where w7:
        "submit_generation_request g e n prompt m ratio ref ?w' = (Out_of_fuel, w7)"
        by (metis prod.collapse)
      with inner(2) have "length (posted w7) \<le> length (posted w) + Suc k"
        by (simp add: len)
      with w7 show ?thesis
        by (simp add: \<open>fuel = Suc n\<close> submit_429 [OF free r]
            del: submit_generation_request.simps)
    qed
  qed
qed

text \<open>
  Claim C3, at the input where the code departs from it. The model class is kontext-max
  (ceiling 6), the counter is 0, the backend answers six times 429 and then 200. For
  every fuel the call is still running, and it has sent at most the six POSTs that were
  answered 429: the seventh, which would be answered 200, is never sent.
\<close>

theorem submit_retry_deadlock:
  "post_reply (rate_limited_env 6) 6
     = Returned (Response 200 (Some (Submit_json (Some ''job-1'') None)) (Raw []) [])
   \<and> (\<forall>fuel.
        fst (submit_generation_request (FluxAssetGenerator_init ''key'' ''global'') (rate_limited_env 6)
               fuel ''a yeti'' KONTEXT_MAX ''1:1'' None (initial_world example_files)) = Out_of_fuel
        \<and> length (posted (snd (submit_generation_request (FluxAssetGenerator_init ''key'' ''global'')
               (rate_limited_env 6) fuel ''a yeti'' KONTEXT_MAX ''1:1'' None
               (initial_world example_files)))) \<le> 6)"
proof -
  have a: "\<forall>j < 6. \<exists>r. post_reply (rate_limited_env 6)
                          (length (posted (initial_world example_files)) + j) = Returned r
                       \<and> status_code r = 429"
    by (simp add: rate_limited_env_def initial_world_fields)
  have b: "max_requests (FluxAssetGenerator_init ''key'' ''global'') KONTEXT_MAX
             \<le> active_requests (initial_world example_files) + int 6"
    by (simp add: max_requests_init initial_world_fields)
  have "post_reply (rate_limited_env 6) 6
          = Returned (Response 200 (Some (Submit_json (Some ''job-1'') None)) (Raw []) [])"
    by (simp add: rate_limited_env_def)
  with submit_429_deadlock [OF a b] show ?thesis
    by (simp add: initial_world_fields del: submit_generation_request.simps)
qed

text \<open>
  The values the counter takes in such a run: it climbs by one per level of the retry and
  comes down again as the levels return.
\<close>

lemma submit_retries_history:
  assumes "\<forall>j < k. \<exists>r. post_reply e (length (posted w) + j) = Returned r \<and> status_code r = 429"
    and "post_reply e (length (posted w) + k) = Returned r" and "status_code r = 200"
    and "json r = Some result" and "json_id result = Some i"
    and "active_requests w + int k < max_requests g m"
  shows "counter_history (snd (submit_generation_request g e (Suc k + extra) prompt m ratio ref w))
           = counter_history w @ map (\<lambda>j. active_requests w + 1 + int j) [0..<Suc k]
               @ rev (map (\<lambda>j. active_requests w + int j) [0..<Suc k])"
  using assms
proof (induction k arbitrary: w)
  case 0
  then have free: "active_requests w < max_requests g m" by simp
  from 0 have r: "post_reply e (length (posted w)) = Returned r" by simp
  show ?case
    by (simp add: submit_200 [OF free r 0(3,4,5)] world_ops entered_def
        del: submit_generation_request.simps)
next
  case (Suc k)
  then have free: "active_requests w < max_requests g m" by simp
  from Suc.prems(1) obtain r0 where r0:
    "post_reply e (length (posted w)) = Returned r0" "status_code r0 = 429"
    by force
  let ?w' = "time_sleep (uniform_5_15 e (draws w))
               ((logger (Warning ''Rate limited, waiting...'') (entered g prompt m ratio ref w))
                  \<lparr>draws := Suc (draws w)\<rparr>)"
  have w': "length (posted ?w') = Suc (length (posted w))"
    "active_requests ?w' = active_requests w + 1"
    "counter_history ?w' = counter_history w @ [active_requests w + 1]"
    by (simp_all add: world_ops entered_def)
  have a: "\<forall>j < k. \<exists>r. post_reply e (length (posted ?w') + j) = Returned r \<and> status_code r = 429"
    using Suc.prems(1) by (auto simp: w'(1) dest: spec [of _ "Suc j" for j])
  have b: "post_reply e (length (posted ?w') + k) = Returned r"
    using Suc.prems(2) by (simp add: w'(1))
  have c: "active_requests ?w' + int k < max_requests g m"
    using Suc.prems(6) by (simp add: w'(2))
  from submit_retries_then_succeeds [OF a b Suc.prems(3,4,5) c, of extra prompt ratio ref]
  obtain w7 where w7:
    "submit_generation_request g e (Suc k + extra) prompt m ratio ref ?w'
       = (Done (Some (handle_of g result i)), w7)"
    "active_requests w7 = active_requests ?w'"
    by blast
  from Suc.IH [OF a b Suc.prems(3,4,5) c] w7(1)
  have inner: "counter_history w7
                 = counter_history ?w' @ map (\<lambda>j. active_requests ?w' + 1 + int j) [0..<Suc k]
                     @ rev (map (\<lambda>j. active_requests ?w' + int j) [0..<Suc k])"
    by simp
  have run: "submit_generation_request g e (Suc (Suc k) + extra) prompt m ratio ref w
               = (Done (Some (handle_of g result i)), release w7)"
    using submit_429 [OF free r0, of "Suc k + extra" prompt ratio ref] w7(1) by simp
  have up: "map (\<lambda>j. active_requests w + 1 + int j) [0..<Suc (Suc k)]
              = (active_requests w + 1) # map (\<lambda>j. active_requests w + 1 + 1 + int j) [0..<Suc k]"
    by (simp add: map_upt_Suc add.assoc del: upt_Suc)
  have down: "rev (map (\<lambda>j. active_requests w + int j) [0..<Suc (Suc k)])
                = rev (map (\<lambda>j. active_requests w + 1 + int j) [0..<Suc k]) @ [active_requests w]"
    by (simp add: map_upt_Suc add.assoc del: upt_Suc)
  have "counter_history (release w7)
          = counter_history w @ map (\<lambda>j. active_requests w + 1 + int j) [0..<Suc (Suc k)]
              @ rev (map (\<lambda>j. active_requests w + int j) [0..<Suc (Suc k)])"
    unfolding up down using inner w7(2) by (simp add: release_def set_active_requests_def w'(2,3))
  with run show ?case by (simp del: submit_generation_request.simps upt_Suc)
qed

text \<open>
  What a submission does to the counter, for every fuel, hence at every point of every
  run. Nothing is assigned and nothing is sent before the counter is below the ceiling;
  the first assignment raises it by one; a call that returns has lowered it again as its
  last assignment.
\<close>

lemma counter_history_shape:
  assumes "0 \<le> active_requests w" and "active_requests w \<le> max_requests g m"
    and "submit_generation_request g e fuel prompt m ratio ref w = (r, w1)"
  shows "\<exists>new sent. counter_history w1 = counter_history w @ new
           \<and> posted w1 = posted w @ sent
           \<and> (new = [] \<longleftrightarrow> sent = [])
           \<and> (\<forall>v \<in> set new. 0 \<le> v \<and> v \<le> max_requests g m)
           \<and> active_requests w1 = last (active_requests w # new)
           \<and> (new \<noteq> [] \<longrightarrow> active_requests w < max_requests g m \<and> hd new = active_requests w + 1)
           \<and> (r \<noteq> Out_of_fuel \<longrightarrow>
                 active_requests w1 = active_requests w
                 \<and> (\<exists>mid. new = [active_requests w + 1] @ mid @ [active_requests w]))"
  using assms
proof (induction fuel arbitrary: w r w1)
  case 0
  then show ?case by (intro exI [of _ "[]"]) auto
next
  case (Suc n)
  show ?case
  proof (cases "max_requests g m \<le> active_requests w")
    case True
    from submit_blocked [OF True, of e "Suc n" prompt ratio ref] Suc.prems(3)
    show ?thesis by (intro exI [of _ "[]"]) auto
  next
    case False
    then have free: "active_requests w < max_requests g m" by simp
    let ?a = "active_requests w"
    let ?post = "(base_url g @ ''/v1/'' @ model_value m, api_key g, sent_body prompt m ratio ref)"
    show ?thesis
    proof (cases "\<exists>rp. post_reply e (length (posted w)) = Returned rp \<and> status_code rp = 429")
      case False
      then have "\<forall>rp. post_reply e (length (posted w)) = Returned rp \<longrightarrow> status_code rp \<noteq> 429"
        by blast
      from submit_not_429 [OF free this, of n prompt ratio ref] Suc.prems(3)
      obtain res evs where
        "r = Done res"
        "w1 = release ((entered g prompt m ratio ref w)
                         \<lparr>logged := logged (entered g prompt m ratio ref w) @ evs\<rparr>)"
        by auto
      with Suc.prems(1) free show ?thesis
        by (intro exI [of _ "[?a + 1, ?a]"] exI [of _ "[?post]"]) (simp add: world_ops entered_def)
    next
      case True
      then obtain rp where rp: "post_reply e (length (posted w)) = Returned rp" "status_code rp = 429"
        by blast
      let ?w' = "time_sleep (uniform_5_15 e (draws w))
                   ((logger (Warning ''Rate limited, waiting...'') (entered g prompt m ratio ref w))
                      \<lparr>draws := Suc (draws w)\<rparr>)"
      obtain r' w7 where inner:
        "submit_generation_request g e n prompt m ratio ref ?w' = (r', w7)"
        by (cases "submit_generation_request g e n prompt m ratio ref ?w'") blast
      have w': "active_requests ?w' = ?a + 1" "counter_history ?w' = counter_history w @ [?a + 1]"
        "posted ?w' = posted w @ [?post]"
        by (simp_all add: world_ops entered_def)
      have "0 \<le> active_requests ?w'" "active_requests ?w' \<le> max_requests g m"
        using Suc.prems(1) free by (simp_all add: w')
      from Suc.IH [OF this inner] obtain new sent where new:
        "counter_history w7 = counter_history ?w' @ new"
        "posted w7 = posted ?w' @ sent"
        "\<forall>v \<in> set new. 0 \<le> v \<and> v \<le> max_requests g m"
        "active_requests w7 = last (active_requests ?w' # new)"
        "r' \<noteq> Out_of_fuel \<longrightarrow> active_requests w7 = active_requests ?w'"
        by blast
      have unfold: "submit_generation_request g e (Suc n) prompt m ratio ref w
                      = (case (r', w7) of (Out_of_fuel, w7) \<Rightarrow> (Out_of_fuel, w7)
                         | (Done res, w7) \<Rightarrow> (Done res, release w7))"
        using submit_429 [OF free rp, of n prompt ratio ref] inner by simp
      show ?thesis
      proof (cases r')
        case Out_of_fuel
        with unfold Suc.prems(3) have "r = Out_of_fuel" "w1 = w7" by simp_all
        with new w' Suc.prems(1) free show ?thesis
          by (intro exI [of _ "(?a + 1) # new"] exI [of _ "?post # sent"]) simp
      next
        case (Done res)
        with unfold Suc.prems(3) have "r = Done res" "w1 = release w7" by simp_all
        moreover from Done new(5) w' have "active_requests w7 = ?a + 1" by simp
        ultimately show ?thesis
          using new w' Suc.prems(1) free
          by (intro exI [of _ "(?a + 1) # new @ [?a]"] exI [of _ "?post # sent"])
             (simp add: world_ops)
      qed
    qed
  qed
qed

text \<open>
  Claim C4. In a submission that starts with the counter between 0 and the ceiling of its
  model class, every value the counter is assigned lies between 0 and that ceiling, at
  every point of the run (the statement holds for every fuel, hence for every prefix of a
  run, also of one that never returns), the recursive retries included, and the counter is
  always the value assigned last. The submission waits: as long as it has not assigned the
  counter it has sent no request, and its first assignment, made only when the counter is
  strictly below the ceiling, raises the counter by one. When the call returns, by
  whatever path, its last assignment has lowered the counter by one, back to its value on
  entry: the values assigned are \<open>a + 1\<close>, those of the retries, and \<open>a\<close>. The ceilings the
  constructor sets are 6 for kontext-max and 24 for every other model.
\<close>

theorem active_requests_bounded:
  assumes "0 \<le> active_requests w" and "active_requests w \<le> max_requests g m"
    and "submit_generation_request g e fuel prompt m ratio ref w = (r, w1)"
  shows "(\<exists>new. counter_history w1 = counter_history w @ new
            \<and> (\<forall>v \<in> set new. 0 \<le> v \<and> v \<le> max_requests g m)
            \<and> active_requests w1 = last (active_requests w # new)
            \<and> (new = [] \<longrightarrow> posted w1 = posted w)
            \<and> (new \<noteq> [] \<longrightarrow> active_requests w < max_requests g m \<and> hd new = active_requests w + 1)
            \<and> (r \<noteq> Out_of_fuel \<longrightarrow>
                  active_requests w1 = active_requests w
                  \<and> (\<exists>mid. new = [active_requests w + 1] @ mid @ [active_requests w])))
         \<and> max_requests (FluxAssetGenerator_init key region) KONTEXT_MAX = 6
         \<and> (m \<noteq> KONTEXT_MAX \<longrightarrow> max_requests (FluxAssetGenerator_init key region) m = 24)"
proof -
  from counter_history_shape [OF assms] obtain new sent where new:
    "counter_history w1 = counter_history w @ new"
    "posted w1 = posted w @ sent"
    "new = [] \<longleftrightarrow> sent = []"
    "\<forall>v \<in> set new. 0 \<le> v \<and> v \<le> max_requests g m"
    "active_requests w1 = last (active_requests w # new)"
    "new \<noteq> [] \<longrightarrow> active_requests w < max_requests g m \<and> hd new = active_requests w + 1"
    "r \<noteq> Out_of_fuel \<longrightarrow>
       active_requests w1 = active_requests w
       \<and> (\<exists>mid. new = [active_requests w + 1] @ mid @ [active_requests w])"
    by blast
  from new(2,3) have "new = [] \<longrightarrow> posted w1 = posted w" by simp
  with new(1,4,5,6,7) have
    "\<exists>new. counter_history w1 = counter_history w @ new
       \<and> (\<forall>v \<in> set new. 0 \<le> v \<and> v \<le> max_requests g m)
       \<and> active_requests w1 = last (active_requests w # new)
       \<and> (new = [] \<longrightarrow> posted w1 = posted w)
       \<and> (new \<noteq> [] \<longrightarrow> active_requests w < max_requests g m \<and> hd new = active_requests w + 1)
       \<and> (r \<noteq> Out_of_fuel \<longrightarrow>
             active_requests w1 = active_requests w
             \<and> (\<exists>mid. new = [active_requests w + 1] @ mid @ [active_requests w]))"
    by (intro exI [of _ new]) blast
  then show ?thesis by (simp add: max_requests_init)
qed

text \<open>
  The theorem at a kontext-max submission that is answered 429 twice and then 200: the
  counter goes 1, 2, 3 as the three levels of the retry enter, and 2, 1, 0 as they return.
\<close>

theorem active_requests_bounded_witness:
  "fst (submit_generation_request (FluxAssetGenerator_init ''key'' ''global'')
          (rate_limited_env 2) 5 ''a yeti'' KONTEXT_MAX ''1:1'' None (initial_world example_files))
     \<noteq> Out_of_fuel
   \<and> counter_history (snd (submit_generation_request (FluxAssetGenerator_init ''key'' ''global'')
          (rate_limited_env 2) 5 ''a yeti'' KONTEXT_MAX ''1:1'' None (initial_world example_files)))
       = [1, 2, 3, 2, 1, 0]
   \<and> max_requests (FluxAssetGenerator_init ''key'' ''global'') KONTEXT_MAX = 6
   \<and> active_requests (snd (submit_generation_request (FluxAssetGenerator_init ''key'' ''global'')
          (rate_limited_env 2) 5 ''a yeti'' KONTEXT_MAX ''1:1'' None (initial_world example_files)))
       = 0"
proof -
  let ?g = "FluxAssetGenerator_init ''key'' ''global''"
  let ?w = "initial_world example_files"
  let ?run = "submit_generation_request ?g (rate_limited_env 2) 5 ''a yeti'' KONTEXT_MAX ''1:1''
                None ?w"
  have a: "0 \<le> active_requests ?w"
    by (simp add: initial_world_fields)
  have b: "active_requests ?w \<le> max_requests ?g KONTEXT_MAX"
    by (simp add: max_requests_init initial_world_fields)
  have c: "\<forall>j < 2. \<exists>r. post_reply (rate_limited_env 2) (length (posted ?w) + j) = Returned r
                       \<and> status_code r = 429"
    by (simp add: rate_limited_env_def initial_world_fields)
  have d: "post_reply (rate_limited_env 2) (length (posted ?w) + 2)
             = Returned (Response 200 (Some (Submit_json (Some ''job-1'') None)) (Raw []) [])"
    by (simp add: rate_limited_env_def initial_world_fields)
  have f: "active_requests ?w + int 2 < max_requests ?g KONTEXT_MAX"
    by (simp add: max_requests_init initial_world_fields)
  have five: "Suc 2 + 2 = (5::nat)" by simp
  have up: "[0..<Suc 2] = [0, 1, 2]"
    by (simp add: eval_nat_numeral)
  from submit_retries_then_succeeds [OF c d _ _ _ f, where extra = 2 and prompt = "''a yeti''"
      and ratio = "''1:1''" and ref = None and result = "Submit_json (Some ''job-1'') None"
      and i = "''job-1''"]
  have returns: "fst ?run \<noteq> Out_of_fuel"
    unfolding five by (auto simp del: submit_generation_request.simps)
  from submit_retries_history [OF c d _ _ _ f, where extra = 2 and prompt = "''a yeti''"
      and ratio = "''1:1''" and ref = None and result = "Submit_json (Some ''job-1'') None"
      and i = "''job-1''"]
  have history: "counter_history (snd ?run) = [1, 2, 3, 2, 1, 0]"
    unfolding five up by (simp add: initial_world_fields del: submit_generation_request.simps)
  from active_requests_bounded [OF a b prod.collapse [symmetric], of "rate_limited_env 2" 5
      "''a yeti''" "''1:1''" None "''key''" "''global''"]
  obtain new where new:
    "counter_history (snd ?run) = counter_history ?w @ new"
    "\<forall>v \<in> set new. 0 \<le> v \<and> v \<le> max_requests ?g KONTEXT_MAX"
    "active_requests (snd ?run) = last (active_requests ?w # new)"
    "max_requests ?g KONTEXT_MAX = 6"
    by blast
  from new(1) history have "new = [1, 2, 3, 2, 1, 0]"
    by (simp add: initial_world_fields)
  with new(2,3,4) returns history show ?thesis
    by (simp add: initial_world_fields del: submit_generation_request.simps)
qed

section \<open>Properties of the poller\<close>

subsection \<open>The backoff values\<close>

lemma floor_rat_numeral: "\<lfloor>numeral a / numeral b :: rat\<rfloor> = numeral a div numeral b"
  by (metis floor_divide_of_int_eq of_int_numeral)

lemma ceiling_rat_numeral: "\<lceil>numeral a / numeral b :: rat\<rceil> = - (- numeral a div numeral b)"
  by (metis ceiling_divide_eq_div of_int_numeral)

lemma pow2_diff: "pow2 (int a - int b) = 2 ^ a / 2 ^ b"
proof (cases "b \<le> a")
  case True
  then have "pow2 (int a - int b) = 2 ^ (a - b)"
    by (simp add: pow2_def nat_diff_distrib')
  with True show ?thesis by (simp add: power_diff)
next
  case False
  then have "pow2 (int a - int b) = 1 / 2 ^ (b - a)"
    by (simp add: pow2_def nat_diff_distrib')
  moreover have "(2::rat) ^ b = 2 ^ (b - a) * 2 ^ a"
    using False by (simp flip: power_add)
  ultimately show ?thesis by simp
qed

text \<open>From 1 on, the spacing of the doubles around x is \<open>2 ^ \<lfloor>log2 x\<rfloor> / 2 ^ 52\<close>.\<close>

lemma binary64_normal:
  assumes "1 \<le> x"
  shows "binary64 x = of_int (round_half_even (x / (2 ^ log2_floor (nat \<lfloor>x\<rfloor>) / 2 ^ 52)))
                       * (2 ^ log2_floor (nat \<lfloor>x\<rfloor>) / 2 ^ 52)"
proof -
  from assms have x: "x \<noteq> 0" "\<not> x < 0" by simp_all
  have "exponent x = int (log2_floor (nat \<lfloor>x\<rfloor>))"
    using assms by (simp add: exponent_def)
  then have "pow2 (max (exponent x) (- 1022) - 52) = 2 ^ log2_floor (nat \<lfloor>x\<rfloor>) / 2 ^ 52"
    using pow2_diff [of "log2_floor (nat \<lfloor>x\<rfloor>)" 52] by (simp add: max_def)
  then show ?thesis
    unfolding binary64_def Let_def by (simp only: x if_False)
qed

lemma binary64_0: "binary64 0 = 0"
  by (simp add: binary64_def)

lemmas binary64_eval = next_wait_time_def binary64_normal binary64_0 round_half_even_def Let_def
  floor_rat_numeral log2_floor.simps

text \<open>
  The integers below \<open>2 ^ 53\<close> are doubles, so a clock that reads whole seconds subtracts
  exactly. Readings of 0.2 and 300.2 seconds do not: their doubles are less than 300
  apart, and the difference computed in doubles is 300.
\<close>

lemma log2_floor_le: "0 < n \<Longrightarrow> 2 ^ log2_floor n \<le> n"
proof (induction n rule: log2_floor.induct)
  case (1 n)
  show ?case
  proof (cases "n < 2")
    case True
    with 1 show ?thesis by (simp add: log2_floor.simps)
  next
    case False
    then have "0 < n div 2" by simp
    with 1 False have "2 ^ log2_floor (n div 2) \<le> n div 2" by simp
    then have "2 * 2 ^ log2_floor (n div 2) \<le> n" by simp
    with False show ?thesis by (simp add: log2_floor.simps [of n])
  qed
qed

lemma log2_floor_bound:
  assumes "n < 2 ^ Suc k"
  shows "log2_floor n \<le> k"
proof (cases "0 < n")
  case False
  then show ?thesis by (simp add: log2_floor.simps)
next
  case True
  from log2_floor_le [OF True] assms have "(2::nat) ^ log2_floor n < 2 ^ Suc k"
    by (rule le_less_trans)
  then have "log2_floor n < Suc k"
    by (rule power_less_imp_less_exp [rotated]) simp
  then show ?thesis by simp
qed

lemma round_half_even_int: "round_half_even (of_int z) = z"
  by (simp add: round_half_even_def)

lemma binary64_of_nat:
  assumes "n < 2 ^ 53"
  shows "binary64 (of_nat n) = of_nat n"
proof (cases "n = 0")
  case True
  then show ?thesis by (simp add: binary64_0)
next
  case False
  then have one: "(1::rat) \<le> of_nat n" by simp
  define e where "e = log2_floor n"
  from assms have "n < 2 ^ Suc 52" by simp
  then have e: "e \<le> 52" unfolding e_def by (rule log2_floor_bound)
  have split: "(2::rat) ^ 52 = 2 ^ (52 - e) * 2 ^ e"
    using e by (simp flip: power_add)
  have "of_nat n / ((2::rat) ^ e / 2 ^ 52) = of_nat n / (2 ^ e / (2 ^ (52 - e) * 2 ^ e))"
    by (simp only: split)
  also have "\<dots> = of_int (int n * 2 ^ (52 - e))"
    by simp
  finally have r: "round_half_even (of_nat n / (2 ^ e / 2 ^ 52)) = int n * 2 ^ (52 - e)"
    by (simp only: round_half_even_int)
  have "binary64 (of_nat n) = of_int (int n * 2 ^ (52 - e)) * (2 ^ e / 2 ^ 52)"
    using binary64_normal [OF one] r by (simp add: e_def)
  also have "\<dots> = of_int (int n * 2 ^ (52 - e)) * (2 ^ e / (2 ^ (52 - e) * 2 ^ e))"
    by (simp only: split)
  also have "\<dots> = of_nat n"
    by simp
  finally show ?thesis .
qed

lemma elapsed_seconds:
  assumes "n < 2 ^ 53"
  shows "elapsed (of_nat n) 0 = of_nat n"
  unfolding elapsed_def diff_zero using assms by (rule binary64_of_nat)

lemma binary64_fifth: "binary64 (1 / 5) = 3602879701896397 / 18014398509481984"
  unfolding binary64_def Let_def
  by (simp add: exponent_def ceiling_rat_numeral log2_floor.simps pow2_def round_half_even_def
      floor_rat_numeral)

lemma binary64_300_fifth: "binary64 (1501 / 5) = 5281174250533683 / 17592186044416"
  by (simp add: binary64_eval)

lemma elapsed_rounds:
  "binary64 (1501 / 5) - binary64 (1 / 5) < 300
   \<and> elapsed (binary64 (1501 / 5)) (binary64 (1 / 5)) = 300"
  unfolding binary64_fifth binary64_300_fifth by (simp add: elapsed_def binary64_eval)

lemma next_wait_time_1: "next_wait_time 2 = 5404319552844595 / 2251799813685248"
  by (simp add: binary64_eval)

lemma next_wait_time_2: "next_wait_time (5404319552844595 / 2251799813685248) = 3242591731706757 / 1125899906842624"
  by (simp add: binary64_eval)

lemma next_wait_time_3: "next_wait_time (3242591731706757 / 1125899906842624) = 7782220156096217 / 2251799813685248"
  by (simp add: binary64_eval)

lemma next_wait_time_4: "next_wait_time (7782220156096217 / 2251799813685248) = 2334666046828865 / 562949953421312"
  by (simp add: binary64_eval)

lemma next_wait_time_5: "next_wait_time (2334666046828865 / 562949953421312) = 1400799628097319 / 281474976710656"
  by (simp add: binary64_eval)

lemma next_wait_time_6: "next_wait_time (1400799628097319 / 281474976710656) = 6723838214867131 / 1125899906842624"
  by (simp add: binary64_eval)

lemma next_wait_time_7: "next_wait_time (6723838214867131 / 1125899906842624) = 8068605857840557 / 1125899906842624"
  by (simp add: binary64_eval)

lemma next_wait_time_8: "next_wait_time (8068605857840557 / 1125899906842624) = 2420581757352167 / 281474976710656"
  by (simp add: binary64_eval)

lemma next_wait_time_9: "next_wait_time (2420581757352167 / 281474976710656) = 5809396217645201 / 562949953421312"
  by (simp add: binary64_eval)

lemma next_wait_time_10: "next_wait_time (5809396217645201 / 562949953421312) = 6971275461174241 / 562949953421312"
  by (simp add: binary64_eval)

lemma next_wait_time_11: "next_wait_time (6971275461174241 / 562949953421312) = 8365530553409089 / 562949953421312"
  by (simp add: binary64_eval)

lemma next_wait_time_12: "next_wait_time (8365530553409089 / 562949953421312) = 15"
  by (simp add: binary64_eval)

lemmas next_wait_time_steps = next_wait_time_1 next_wait_time_2 next_wait_time_3 next_wait_time_4
  next_wait_time_5 next_wait_time_6 next_wait_time_7 next_wait_time_8 next_wait_time_9
  next_wait_time_10 next_wait_time_11 next_wait_time_12

lemma next_wait_time_15: "next_wait_time 15 = 15"
  by (simp add: binary64_eval)

lemma backoff_next: "backoff n = v \<Longrightarrow> next_wait_time v = v' \<Longrightarrow> backoff (Suc n) = v'"
  by simp

lemma backoff_1: "backoff 1 = 5404319552844595 / 2251799813685248"
  using backoff_next [OF backoff.simps(1) next_wait_time_1] unfolding One_nat_def .

lemma backoff_2: "backoff 2 = 3242591731706757 / 1125899906842624"
proof -
  have "Suc 1 = 2" by simp
  with backoff_next [OF backoff_1 next_wait_time_2] show ?thesis by (simp only:)
qed

lemma backoff_3: "backoff 3 = 7782220156096217 / 2251799813685248"
proof -
  have "Suc 2 = 3" by simp
  with backoff_next [OF backoff_2 next_wait_time_3] show ?thesis by (simp only:)
qed

lemma backoff_4: "backoff 4 = 2334666046828865 / 562949953421312"
proof -
  have "Suc 3 = 4" by simp
  with backoff_next [OF backoff_3 next_wait_time_4] show ?thesis by (simp only:)
qed

lemma backoff_5: "backoff 5 = 1400799628097319 / 281474976710656"
proof -
  have "Suc 4 = 5" by simp
  with backoff_next [OF backoff_4 next_wait_time_5] show ?thesis by (simp only:)
qed

lemma backoff_6: "backoff 6 = 6723838214867131 / 1125899906842624"
proof -
  have "Suc 5 = 6" by simp
  with backoff_next [OF backoff_5 next_wait_time_6] show ?thesis by (simp only:)
qed

lemma backoff_7: "backoff 7 = 8068605857840557 / 1125899906842624"
proof -
  have "Suc 6 = 7" by simp
  with backoff_next [OF backoff_6 next_wait_time_7] show ?thesis by (simp only:)
qed

lemma backoff_8: "backoff 8 = 2420581757352167 / 281474976710656"
proof -
  have "Suc 7 = 8" by simp
  with backoff_next [OF backoff_7 next_wait_time_8] show ?thesis by (simp only:)
qed

lemma backoff_9: "backoff 9 = 5809396217645201 / 562949953421312"
proof -
  have "Suc 8 = 9" by simp
  with backoff_next [OF backoff_8 next_wait_time_9] show ?thesis by (simp only:)
qed

lemma backoff_10: "backoff 10 = 6971275461174241 / 562949953421312"
proof -
  have "Suc 9 = 10" by simp
  with backoff_next [OF backoff_9 next_wait_time_10] show ?thesis by (simp only:)
qed

lemma backoff_11: "backoff 11 = 8365530553409089 / 562949953421312"
proof -
  have "Suc 10 = 11" by simp
  with backoff_next [OF backoff_10 next_wait_time_11] show ?thesis by (simp only:)
qed

lemma backoff_12: "backoff 12 = 15"
proof -
  have "Suc 11 = 12" by simp
  with backoff_next [OF backoff_11 next_wait_time_12] show ?thesis by (simp only:)
qed

lemmas backoff_values = backoff_1 backoff_2 backoff_3 backoff_4 backoff_5 backoff_6 backoff_7 backoff_8 backoff_9 backoff_10 backoff_11 backoff_12

lemma backoff_capped: "backoff (12 + n) = 15"
proof (induction n)
  case 0
  show ?case by (simp only: backoff_12 add_0_right)
next
  case (Suc n)
  have "backoff (Suc (12 + n)) = 15"
    by (simp only: backoff.simps Suc next_wait_time_15)
  then show ?case by (simp only: add_Suc_right)
qed

lemma backoff_below_cap:
  assumes "k < 12"
  shows "backoff k < 15"
proof -
  from assms have "k \<le> 5 \<or> (6 \<le> k \<and> k \<le> 11)" by arith
  then show ?thesis
  proof
    assume "k \<le> 5"
    then have "k = 5 \<or> k = 4 \<or> k = 3 \<or> k = 2 \<or> k = 1 \<or> k = 0" by arith
    then show ?thesis
      by (elim disjE) (simp_all add: backoff_values next_wait_time_1)
  next
    assume "6 \<le> k \<and> k \<le> 11"
    then have "k = 11 \<or> k = 10 \<or> k = 9 \<or> k = 8 \<or> k = 7 \<or> k = 6" by arith
    then show ?thesis
      by (elim disjE) (simp_all add: backoff_values)
  qed
qed

lemma backoff_cap_iff: "backoff n = 15 \<longleftrightarrow> 12 \<le> n"
proof
  assume "backoff n = 15"
  then show "12 \<le> n"
    using backoff_below_cap [of n] by (cases "n < 12") simp_all
next
  assume "12 \<le> n"
  then obtain k where "n = 12 + k" using le_Suc_ex by blast
  then show "backoff n = 15" by (simp only: backoff_capped)
qed

lemma backoff_10_close: "\<bar>backoff 10 - 2 * (12 / 10) ^ 10\<bar> < 1 / 10 ^ 14"
  by (simp only: backoff_10) (simp add: power_divide abs_less_iff)

subsection \<open>One round of the loop, and several\<close>

lemmas poll_ops = time_time_def time_sleep_def logger_def requests_get_def

lemma poll_loop_timeout:
  assumes "\<not> elapsed (clock e (clock_reads w)) start_time < of_int timeout"
  shows "poll_loop e key (Suc n) info timeout start_time wait_time w
           = (Done None, logger (timed_out timeout) (w\<lparr>clock_reads := Suc (clock_reads w)\<rparr>))"
  using assms by (simp add: poll_ops timed_out_def)

lemma is_pendingD:
  assumes "is_pending a"
  obtains r res where "a = Returned r" "status_code r = 200" "json r = Some res"
    "json_status res = Some ''Pending''"
  using assms by (auto simp: is_pending_def split: attempt.splits option.splits)

lemma is_unrecognisedD:
  assumes "is_unrecognised a"
  obtains r res where "a = Returned r" "status_code r = 200" "json r = Some res"
    "json_status res \<noteq> Some ''Ready''" "json_status res \<noteq> Some ''Error''"
    "json_status res \<noteq> Some ''Content Moderated''" "json_status res \<noteq> Some ''Pending''"
  using assms by (auto simp: is_unrecognised_def split: attempt.splits option.splits)

lemma poll_loop_pending:
  assumes "elapsed (clock e (clock_reads w)) start_time < of_int timeout"
    and "is_pending (get_reply e (length (fetched w)))"
  shows "\<exists>line. poll_loop e key (Suc n) info timeout start_time wait_time w
           = poll_loop e key n info timeout start_time (next_wait_time wait_time)
               (w\<lparr>fetched := fetched w @ [(polling_url info, Some key)],
                  clock_reads := clock_reads w + 2,
                  logged := logged w @ [Info line],
                  sleeps := sleeps w @ [wait_time]\<rparr>)"
proof -
  from assms(2) obtain r res where r:
    "get_reply e (length (fetched w)) = Returned r" "status_code r = 200" "json r = Some res"
    "json_status res = Some ''Pending''"
    by (rule is_pendingD)
  show ?thesis
    using assms(1) r
    by (intro exI [of _ "''Generation in progress... ''
                          @ (case json_progress res of None \<Rightarrow> ''0'' | Some p \<Rightarrow> p)
                          @ ''% (waited ''
                          @ str_int (py_int (elapsed (clock e (Suc (clock_reads w))) start_time))
                          @ ''s)''"])
       (simp add: poll_ops Let_def)
qed

lemma poll_loop_unrecognised:
  assumes "elapsed (clock e (clock_reads w)) start_time < of_int timeout"
    and "is_unrecognised (get_reply e (length (fetched w)))"
  shows "poll_loop e key (Suc n) info timeout start_time wait_time w
           = poll_loop e key n info timeout start_time wait_time
               (w\<lparr>clock_reads := Suc (clock_reads w),
                  fetched := fetched w @ [(polling_url info, Some key)]\<rparr>)"
proof -
  from assms(2) obtain r res where r:
    "get_reply e (length (fetched w)) = Returned r" "status_code r = 200" "json r = Some res"
    "json_status res \<noteq> Some ''Ready''" "json_status res \<noteq> Some ''Error''"
    "json_status res \<noteq> Some ''Content Moderated''" "json_status res \<noteq> Some ''Pending''"
    by (rule is_unrecognisedD)
  show ?thesis
    using assms(1) r by (simp add: poll_ops Let_def)
qed


lemma poll_loop_pending_rounds:
  assumes "\<forall>j < n. elapsed (clock e (clock_reads w + 2 * j)) start_time < of_int timeout"
    and "\<forall>j < n. is_pending (get_reply e (length (fetched w) + j))"
  shows "\<exists>w'. poll_loop e key (n + k) info timeout start_time wait_time w
                 = poll_loop e key k info timeout start_time ((next_wait_time ^^ n) wait_time) w'
           \<and> sleeps w' = sleeps w @ map (\<lambda>j. (next_wait_time ^^ j) wait_time) [0..<n]
           \<and> clock_reads w' = clock_reads w + 2 * n
           \<and> fetched w' = fetched w @ replicate n (polling_url info, Some key)"
  using assms
proof (induction n arbitrary: w wait_time)
  case 0
  show ?case by (intro exI [of _ w]) simp
next
  case (Suc n)
  from Suc.prems have first: "elapsed (clock e (clock_reads w)) start_time < of_int timeout"
    "is_pending (get_reply e (length (fetched w)))"
    by (auto dest: spec [of _ 0])
  from poll_loop_pending [OF first, of key "n + k" info wait_time] obtain line where step:
    "poll_loop e key (Suc (n + k)) info timeout start_time wait_time w
       = poll_loop e key (n + k) info timeout start_time (next_wait_time wait_time)
           (w\<lparr>fetched := fetched w @ [(polling_url info, Some key)],
              clock_reads := clock_reads w + 2,
              logged := logged w @ [Info line],
              sleeps := sleeps w @ [wait_time]\<rparr>)"
    by blast
  let ?w1 = "w\<lparr>fetched := fetched w @ [(polling_url info, Some key)],
               clock_reads := clock_reads w + 2,
               logged := logged w @ [Info line],
               sleeps := sleeps w @ [wait_time]\<rparr>"
  have a: "\<forall>j < n. elapsed (clock e (clock_reads ?w1 + 2 * j)) start_time < of_int timeout"
  proof (intro allI impI)
    fix j assume "j < n"
    then have "Suc j < Suc n" by simp
    with Suc.prems(1) have "elapsed (clock e (clock_reads w + 2 * Suc j)) start_time < of_int timeout"
      by blast
    then show "elapsed (clock e (clock_reads ?w1 + 2 * j)) start_time < of_int timeout" by simp
  qed
  have b: "\<forall>j < n. is_pending (get_reply e (length (fetched ?w1) + j))"
  proof (intro allI impI)
    fix j assume "j < n"
    then have "Suc j < Suc n" by simp
    with Suc.prems(2) have "is_pending (get_reply e (length (fetched w) + Suc j))"
      by blast
    then show "is_pending (get_reply e (length (fetched ?w1) + j))" by simp
  qed
  from Suc.IH [OF a b, of "next_wait_time wait_time"] obtain w' where w':
    "poll_loop e key (n + k) info timeout start_time (next_wait_time wait_time) ?w1
       = poll_loop e key k info timeout start_time
           ((next_wait_time ^^ n) (next_wait_time wait_time)) w'"
    "sleeps w' = sleeps ?w1 @ map (\<lambda>j. (next_wait_time ^^ j) (next_wait_time wait_time)) [0..<n]"
    "clock_reads w' = clock_reads ?w1 + 2 * n"
    "fetched w' = fetched ?w1 @ replicate n (polling_url info, Some key)"
    by blast
  have "poll_loop e key (Suc n + k) info timeout start_time wait_time w
          = poll_loop e key k info timeout start_time ((next_wait_time ^^ Suc n) wait_time) w'"
    using step w'(1) by (simp add: funpow_swap1 del: poll_loop.simps)
  moreover have "sleeps w' = sleeps w @ map (\<lambda>j. (next_wait_time ^^ j) wait_time) [0..<Suc n]"
    using w'(2) by (simp add: map_upt_Suc funpow_swap1 del: upt_Suc)
  moreover have "clock_reads w' = clock_reads w + 2 * Suc n"
    using w'(3) by simp
  moreover have "fetched w' = fetched w @ replicate (Suc n) (polling_url info, Some key)"
    using w'(4) by (simp add: replicate_append_same)
  ultimately show ?case by blast
qed

lemma funpow_backoff: "(next_wait_time ^^ n) 2 = backoff n"
  by (induction n) simp_all

lemma str_int_300: "str_int 300 = ''300''"
  by (simp add: str_int_def str_nat.simps digit_char_def)

lemma str_int_404: "str_int 404 = ''404''"
  by (simp add: str_int_def str_nat.simps digit_char_def)

subsection \<open>The backoff schedule\<close>

lemma backoff_first_eleven:
  "map backoff [0..<11]
     = [2, 5404319552844595 / 2251799813685248, 3242591731706757 / 1125899906842624,
        7782220156096217 / 2251799813685248, 2334666046828865 / 562949953421312,
        1400799628097319 / 281474976710656, 6723838214867131 / 1125899906842624,
        8068605857840557 / 1125899906842624, 2420581757352167 / 281474976710656,
        5809396217645201 / 562949953421312, 6971275461174241 / 562949953421312]"
proof -
  have "[0..<11] = [0, 1, 2, 3, 4, 5, 6, 7, 8, 9, 10 :: nat]"
    by (simp add: eval_nat_numeral)
  then show ?thesis
    by (simp only: list.map backoff.simps(1) backoff_values)
qed

lemma pending_env_in_time:
  assumes "j < 11"
  shows "elapsed (clock pending_env (Suc (2 * j))) (clock pending_env 0) < 300"
proof -
  have clock: "clock pending_env k = of_nat k" for k
    by (simp add: pending_env_def example_env_def)
  from assms have "Suc (2 * j) < 2 ^ 53" by simp
  then have "elapsed (of_nat (Suc (2 * j))) 0 = (of_nat (Suc (2 * j)) :: rat)"
    by (rule elapsed_seconds)
  moreover from assms have "(of_nat (Suc (2 * j)) :: rat) < 300"
    by (simp only: of_nat_less_numeral_iff)
  ultimately show ?thesis
    by (simp only: clock of_nat_0)
qed

lemma pending_env_pending: "is_pending (get_reply pending_env k)"
  by (simp add: pending_env_def is_pending_def)

text \<open>
  Claim C1, as the code has it. While the status requests are answered \<open>Pending\<close> and the
  loop test passes, \<open>_poll_for_result\<close> sleeps the intervals \<open>backoff 0\<close>, \<open>backoff 1\<close>, ... in
  turn: the first interval it sleeps is 2, and after each \<open>Pending\<close> response the interval
  becomes the minimum of 15 and its product with 1.2 (computed in doubles). After 10
  \<open>Pending\<close> responses in a row the interval is 12.383472844799998 (less than
  \<open>1 / 10 ^ 14\<close> away from \<open>2 * 1.2 ^ 10\<close>), which is below the cap; it is 15 exactly from
  the 12th \<open>Pending\<close> response on.
\<close>

theorem poll_backoff_intervals:
  assumes "\<forall>j < n. elapsed (clock e (Suc (clock_reads w) + 2 * j)) (clock e (clock_reads w))
                     < of_int timeout"
    and "\<forall>j < n. is_pending (get_reply e (length (fetched w) + j))"
  shows "(\<exists>w'. poll_for_result e key (n + k) info timeout w
                  = poll_loop e key k info timeout (clock e (clock_reads w)) (backoff n) w'
             \<and> sleeps w' = sleeps w @ map backoff [0..<n]
             \<and> (0 < n \<longrightarrow> sleeps w' ! length (sleeps w) = 2)
             \<and> (10 < n \<longrightarrow> sleeps w' ! (length (sleeps w) + 10)
                               = 6971275461174241 / 562949953421312)
             \<and> (\<forall>j < n. sleeps w' ! (length (sleeps w) + j) = 15 \<longleftrightarrow> 12 \<le> j))
         \<and> backoff 0 = 2
         \<and> (\<forall>j. backoff (Suc j) = min (binary64 (backoff j * binary64 (12 / 10))) 15)
         \<and> backoff 10 = 6971275461174241 / 562949953421312
         \<and> \<bar>backoff 10 - 2 * (12 / 10) ^ 10\<bar> < 1 / 10 ^ 14
         \<and> backoff 10 < 15
         \<and> (\<forall>j. backoff j = 15 \<longleftrightarrow> 12 \<le> j)"
proof -
  let ?w1 = "w\<lparr>clock_reads := Suc (clock_reads w)\<rparr>"
  let ?start = "clock e (clock_reads w)"
  have start: "poll_for_result e key (n + k) info timeout w
                 = poll_loop e key (n + k) info timeout ?start 2 ?w1"
    by (simp add: poll_for_result_def time_time_def del: poll_loop.simps)
  from assms(1) have a: "\<forall>j < n. elapsed (clock e (clock_reads ?w1 + 2 * j)) ?start < of_int timeout"
    by simp
  from assms(2) have b: "\<forall>j < n. is_pending (get_reply e (length (fetched ?w1) + j))"
    by simp
  from poll_loop_pending_rounds [OF a b, of key k info 2] obtain w' where w':
    "poll_loop e key (n + k) info timeout ?start 2 ?w1
       = poll_loop e key k info timeout ?start ((next_wait_time ^^ n) 2) w'"
    "sleeps w' = sleeps ?w1 @ map (\<lambda>j. (next_wait_time ^^ j) 2) [0..<n]"
    by blast
  have run: "poll_for_result e key (n + k) info timeout w
               = poll_loop e key k info timeout ?start (backoff n) w'"
    using start w'(1) by (simp only: funpow_backoff)
  have slept: "sleeps w' = sleeps w @ map backoff [0..<n]"
    using w'(2) by (simp add: funpow_backoff)
  have nth: "sleeps w' ! (length (sleeps w) + j) = backoff j" if "j < n" for j
    using that by (simp add: slept nth_append)
  have first: "0 < n \<longrightarrow> sleeps w' ! length (sleeps w) = 2"
    using nth [of 0] by simp
  have tenth: "10 < n \<longrightarrow> sleeps w' ! (length (sleeps w) + 10) = 6971275461174241 / 562949953421312"
    using nth [of 10] by (simp add: backoff_10)
  have cap: "\<forall>j < n. sleeps w' ! (length (sleeps w) + j) = 15 \<longleftrightarrow> 12 \<le> j"
    by (simp add: nth backoff_cap_iff)
  from run slept first tenth cap have
    "\<exists>w'. poll_for_result e key (n + k) info timeout w
             = poll_loop e key k info timeout ?start (backoff n) w'
        \<and> sleeps w' = sleeps w @ map backoff [0..<n]
        \<and> (0 < n \<longrightarrow> sleeps w' ! length (sleeps w) = 2)
        \<and> (10 < n \<longrightarrow> sleeps w' ! (length (sleeps w) + 10)
                          = 6971275461174241 / 562949953421312)
        \<and> (\<forall>j < n. sleeps w' ! (length (sleeps w) + j) = 15 \<longleftrightarrow> 12 \<le> j)"
    by (intro exI [of _ w']) (simp only: simp_thms)
  moreover have "\<forall>j. backoff (Suc j) = min (binary64 (backoff j * binary64 (12 / 10))) 15"
    by (simp add: next_wait_time_def)
  moreover have "backoff 10 < 15"
    by (simp add: backoff_below_cap)
  ultimately show ?thesis
    using backoff_10 backoff_10_close backoff_cap_iff by (simp del: poll_loop.simps)
qed

text \<open>
  The theorem at a job that stays \<open>Pending\<close> for eleven rounds: the eleven intervals slept,
  the last of them the interval after 10 \<open>Pending\<close> responses.
\<close>

theorem poll_backoff_intervals_witness:
  "\<exists>w'. poll_for_result pending_env ''key'' 11 example_task 300 (initial_world example_files)
           = (Out_of_fuel, w')
     \<and> sleeps w'
         = [2, 5404319552844595 / 2251799813685248, 3242591731706757 / 1125899906842624,
            7782220156096217 / 2251799813685248, 2334666046828865 / 562949953421312,
            1400799628097319 / 281474976710656, 6723838214867131 / 1125899906842624,
            8068605857840557 / 1125899906842624, 2420581757352167 / 281474976710656,
            5809396217645201 / 562949953421312, 6971275461174241 / 562949953421312]
     \<and> sleeps w' ! 0 = 2
     \<and> sleeps w' ! 10 = 6971275461174241 / 562949953421312"
proof -
  let ?w = "initial_world example_files"
  have a: "\<forall>j < 11. elapsed (clock pending_env (Suc (clock_reads ?w) + 2 * j))
                       (clock pending_env (clock_reads ?w)) < of_int 300"
  proof (intro allI impI)
    fix j :: nat
    assume "j < 11"
    then have "elapsed (clock pending_env (Suc (2 * j))) (clock pending_env 0) < 300"
      by (rule pending_env_in_time)
    then show "elapsed (clock pending_env (Suc (clock_reads ?w) + 2 * j))
                 (clock pending_env (clock_reads ?w)) < of_int 300"
      by (simp add: initial_world_fields)
  qed
  have b: "\<forall>j < 11. is_pending (get_reply pending_env (length (fetched ?w) + j))"
    by (simp add: pending_env_pending)
  from poll_backoff_intervals [OF a b, of "''key''" 0 example_task]
  have "\<exists>w'. poll_for_result pending_env ''key'' (11 + 0) example_task 300 ?w
                = poll_loop pending_env ''key'' 0 example_task 300
                    (clock pending_env (clock_reads ?w)) (backoff 11) w'
           \<and> sleeps w' = sleeps ?w @ map backoff [0..<11]
           \<and> (0 < (11::nat) \<longrightarrow> sleeps w' ! length (sleeps ?w) = 2)
           \<and> (10 < (11::nat) \<longrightarrow> sleeps w' ! (length (sleeps ?w) + 10)
                                   = 6971275461174241 / 562949953421312)
           \<and> (\<forall>j < 11. sleeps w' ! (length (sleeps ?w) + j) = 15 \<longleftrightarrow> 12 \<le> j)"
    by (rule conjunct1)
  then obtain w' where w':
    "poll_for_result pending_env ''key'' (11 + 0) example_task 300 ?w
       = poll_loop pending_env ''key'' 0 example_task 300
           (clock pending_env (clock_reads ?w)) (backoff 11) w'"
    "sleeps w' = sleeps ?w @ map backoff [0..<11]"
    "0 < (11::nat) \<longrightarrow> sleeps w' ! length (sleeps ?w) = 2"
    "10 < (11::nat) \<longrightarrow> sleeps w' ! (length (sleeps ?w) + 10) = 6971275461174241 / 562949953421312"
    by (elim exE conjE)
  from w'(1) have run: "poll_for_result pending_env ''key'' 11 example_task 300 ?w = (Out_of_fuel, w')"
    by simp
  from w'(2) have slept: "sleeps w'
         = [2, 5404319552844595 / 2251799813685248, 3242591731706757 / 1125899906842624,
            7782220156096217 / 2251799813685248, 2334666046828865 / 562949953421312,
            1400799628097319 / 281474976710656, 6723838214867131 / 1125899906842624,
            8068605857840557 / 1125899906842624, 2420581757352167 / 281474976710656,
            5809396217645201 / 562949953421312, 6971275461174241 / 562949953421312]"
    by (simp only: backoff_first_eleven initial_world_fields append_Nil)
  from w'(3) have first: "sleeps w' ! 0 = 2"
    by (simp add: initial_world_fields)
  from w'(4) have tenth: "sleeps w' ! 10 = 6971275461174241 / 562949953421312"
    by (simp add: initial_world_fields)
  from run slept first tenth show ?thesis
    by (intro exI [of _ w'] conjI)
qed

text \<open>
  The claim as stated fails: in a run whose first eleven status requests are answered
  \<open>Pending\<close>, the eleventh sleep, which is the interval after 10 \<open>Pending\<close> iterations, is
  not 15; nor is \<open>min (2 * 1.2 ^ 10) 15\<close> equal to 15 in exact arithmetic.
\<close>

theorem poll_backoff_counterexample:
  "sleeps (snd (poll_for_result pending_env ''key'' 11 example_task 300
                  (initial_world example_files))) ! 10 \<noteq> 15
   \<and> min (2 * (12 / 10) ^ 10) 15 \<noteq> (15 :: rat)"
proof -
  let ?w1 = "(initial_world example_files)\<lparr>clock_reads := Suc 0\<rparr>"
  have start: "poll_for_result pending_env ''key'' 11 example_task 300 (initial_world example_files)
                 = poll_loop pending_env ''key'' (11 + 0) example_task 300 (clock pending_env 0) 2 ?w1"
    by (simp add: poll_for_result_def time_time_def initial_world_fields del: poll_loop.simps)
  have a: "\<forall>j < 11. elapsed (clock pending_env (clock_reads ?w1 + 2 * j)) (clock pending_env 0)
                       < of_int 300"
    using pending_env_in_time by simp
  have b: "\<forall>j < 11. is_pending (get_reply pending_env (length (fetched ?w1) + j))"
    by (simp add: pending_env_pending)
  from poll_loop_pending_rounds [OF a b, of "''key''" 0 example_task 2] obtain w' where w':
    "poll_loop pending_env ''key'' (11 + 0) example_task 300 (clock pending_env 0) 2 ?w1
       = poll_loop pending_env ''key'' 0 example_task 300 (clock pending_env 0)
           ((next_wait_time ^^ 11) 2) w'"
    "sleeps w' = sleeps ?w1 @ map (\<lambda>j. (next_wait_time ^^ j) 2) [0..<11]"
    by blast
  have "snd (poll_for_result pending_env ''key'' 11 example_task 300 (initial_world example_files))
          = w'"
    using start w'(1) by simp
  moreover have "sleeps w' ! 10 = backoff 10"
    using w'(2) by (simp add: initial_world_fields funpow_backoff nth_append del: upt_Suc)
  moreover have "backoff 10 \<noteq> 15"
    by (simp add: backoff_10)
  moreover have "min (2 * (12 / 10) ^ 10) 15 \<noteq> (15 :: rat)"
    by (simp add: power_divide)
  ultimately show ?thesis by simp
qed

subsection \<open>The timeout\<close>

lemma poll_loop_idle_rounds:
  assumes "idle_rounds e timeout start_time n (clock_reads w) (length (fetched w))"
  shows "\<exists>w' lines. poll_loop e key (Suc n + k) info timeout start_time wait_time w = (Done None, w')
           \<and> fetched w' = fetched w @ replicate n (polling_url info, Some key)
           \<and> logged w' = logged w @ map Info lines @ [timed_out timeout]"
  using assms
proof (induction n arbitrary: w wait_time)
  case 0
  then have "\<not> elapsed (clock e (clock_reads w)) start_time < of_int timeout" by simp
  from poll_loop_timeout [OF this, of key k info wait_time] show ?case
    by (intro exI [of _ "logger (timed_out timeout) (w\<lparr>clock_reads := Suc (clock_reads w)\<rparr>)"]
          exI [of _ "[]"])
       (simp add: logger_def del: poll_loop.simps)
next
  case (Suc n)
  from Suc.prems have test: "elapsed (clock e (clock_reads w)) start_time < of_int timeout" by simp
  show ?case
  proof (cases "is_pending (get_reply e (length (fetched w)))")
    case True
    from poll_loop_pending [OF test True, of key "Suc n + k" info wait_time] obtain line where step:
      "poll_loop e key (Suc (Suc n + k)) info timeout start_time wait_time w
         = poll_loop e key (Suc n + k) info timeout start_time (next_wait_time wait_time)
             (w\<lparr>fetched := fetched w @ [(polling_url info, Some key)],
                clock_reads := clock_reads w + 2,
                logged := logged w @ [Info line],
                sleeps := sleeps w @ [wait_time]\<rparr>)"
      by blast
    let ?w1 = "w\<lparr>fetched := fetched w @ [(polling_url info, Some key)],
                 clock_reads := clock_reads w + 2,
                 logged := logged w @ [Info line],
                 sleeps := sleeps w @ [wait_time]\<rparr>"
    from Suc.prems True
    have "idle_rounds e timeout start_time n (clock_reads ?w1) (length (fetched ?w1))"
      by simp
    from Suc.IH [OF this, of "next_wait_time wait_time"] obtain w' lines where w':
      "poll_loop e key (Suc n + k) info timeout start_time (next_wait_time wait_time) ?w1
         = (Done None, w')"
      "fetched w' = fetched ?w1 @ replicate n (polling_url info, Some key)"
      "logged w' = logged ?w1 @ map Info lines @ [timed_out timeout]"
      by blast
    have "poll_loop e key (Suc (Suc n) + k) info timeout start_time wait_time w = (Done None, w')"
      using step w'(1) by (simp del: poll_loop.simps)
    moreover have "fetched w' = fetched w @ replicate (Suc n) (polling_url info, Some key)"
      using w'(2) by (simp add: replicate_append_same)
    moreover have "logged w' = logged w @ map Info (line # lines) @ [timed_out timeout]"
      using w'(3) by simp
    ultimately show ?thesis by blast
  next
    case False
    with Suc.prems have other: "is_unrecognised (get_reply e (length (fetched w)))"
      and rest: "idle_rounds e timeout start_time n (Suc (clock_reads w)) (Suc (length (fetched w)))"
      by simp_all
    let ?w1 = "w\<lparr>clock_reads := Suc (clock_reads w),
                 fetched := fetched w @ [(polling_url info, Some key)]\<rparr>"
    from rest have "idle_rounds e timeout start_time n (clock_reads ?w1) (length (fetched ?w1))"
      by simp
    from Suc.IH [OF this, of wait_time] obtain w' lines where w':
      "poll_loop e key (Suc n + k) info timeout start_time wait_time ?w1 = (Done None, w')"
      "fetched w' = fetched ?w1 @ replicate n (polling_url info, Some key)"
      "logged w' = logged ?w1 @ map Info lines @ [timed_out timeout]"
      by blast
    have "poll_loop e key (Suc (Suc n) + k) info timeout start_time wait_time w = (Done None, w')"
      using poll_loop_unrecognised [OF test other, of key "Suc n + k" info wait_time] w'(1)
      by (simp del: poll_loop.simps)
    moreover have "fetched w' = fetched w @ replicate (Suc n) (polling_url info, Some key)"
      using w'(2) by (simp add: replicate_append_same)
    moreover have "logged w' = logged w @ map Info lines @ [timed_out timeout]"
      using w'(3) by simp
    ultimately show ?thesis by blast
  qed
qed

text \<open>
  Claim C5, as the code has it. If n rounds in a row pass the loop test and are answered
  with status 200 and a status of \<open>Pending\<close> or one the code does not name, and the test
  after them fails, then \<open>_poll_for_result\<close> returns \<open>None\<close> after logging the timeout, having
  logged nothing but progress lines before; and it has sent exactly n status requests,
  one for each test that passed. An iteration starts only after a loop test at which the
  elapsed time is below the timeout: from whatever state and with whatever interval the
  loop comes to its test, if the elapsed time is not below the timeout there, the loop
  ends at once, with the timeout logged and no request sent.
\<close>

theorem poll_timeout:
  assumes "idle_rounds e timeout (clock e (clock_reads w)) n (Suc (clock_reads w))
             (length (fetched w))"
  shows "(\<exists>w' lines. poll_for_result e key (Suc n + k) info timeout w = (Done None, w')
            \<and> fetched w' = fetched w @ replicate n (polling_url info, Some key)
            \<and> logged w' = logged w @ map Info lines @ [timed_out timeout])
         \<and> (\<forall>v start_time wait_time fuel.
               \<not> elapsed (clock e (clock_reads v)) start_time < of_int timeout \<longrightarrow>
               poll_loop e key (Suc fuel) info timeout start_time wait_time v
                 = (Done None, logger (timed_out timeout) (v\<lparr>clock_reads := Suc (clock_reads v)\<rparr>)))"
proof -
  let ?w1 = "w\<lparr>clock_reads := Suc (clock_reads w)\<rparr>"
  from assms have "idle_rounds e timeout (clock e (clock_reads w)) n (clock_reads ?w1)
                     (length (fetched ?w1))"
    by simp
  from poll_loop_idle_rounds [OF this, of key k info 2]
  have "\<exists>w' lines. poll_for_result e key (Suc n + k) info timeout w = (Done None, w')
          \<and> fetched w' = fetched w @ replicate n (polling_url info, Some key)
          \<and> logged w' = logged w @ map Info lines @ [timed_out timeout]"
    by (simp add: poll_for_result_def time_time_def del: poll_loop.simps)
  moreover have "\<forall>v start_time wait_time fuel.
               \<not> elapsed (clock e (clock_reads v)) start_time < of_int timeout \<longrightarrow>
               poll_loop e key (Suc fuel) info timeout start_time wait_time v
                 = (Done None, logger (timed_out timeout) (v\<lparr>clock_reads := Suc (clock_reads v)\<rparr>))"
    by (intro allI impI) (rule poll_loop_timeout)
  ultimately show ?thesis by (intro conjI)
qed

text \<open>
  The theorem at a job that alternates between \<open>Pending\<close> and \<open>Task not found\<close> while the
  clock advances 60 seconds per reading: the three tests at 60, 180 and 240 seconds pass,
  the test at 360 seconds fails. At that reading the loop sends and sleeps nothing.
\<close>

theorem poll_timeout_witness:
  "idle_rounds stalled_env 300 0 3 1 0
   \<and> (\<exists>w' lines. poll_for_result stalled_env ''key'' 4 example_task 300 (initial_world example_files)
                     = (Done None, w')
          \<and> fetched w' = replicate 3 (polling_url example_task, Some ''key'')
          \<and> logged w' = map Info lines @ [Error ''Generation timed out after 300 seconds''])
   \<and> \<not> elapsed (clock stalled_env 6) 0 < 300
   \<and> poll_loop stalled_env ''key'' 1 example_task 300 0 2
        ((initial_world example_files)\<lparr>clock_reads := 6\<rparr>)
      = (Done None,
         (initial_world example_files)
           \<lparr>clock_reads := 7, logged := [Error ''Generation timed out after 300 seconds'']\<rparr>)"
proof -
  let ?w = "initial_world example_files"
  let ?v = "?w\<lparr>clock_reads := 6\<rparr>"
  have idle: "idle_rounds stalled_env 300 0 3 1 0"
    unfolding numeral_3_eq_3
    by (simp add: stalled_env_def is_pending_def is_unrecognised_def elapsed_def binary64_eval)
  then have "idle_rounds stalled_env 300 (clock stalled_env (clock_reads ?w)) 3
               (Suc (clock_reads ?w)) (length (fetched ?w))"
    by (simp add: initial_world_fields stalled_env_def del: idle_rounds.simps)
  note inst = poll_timeout [OF this, of "''key''" 0 example_task]
  from inst have "\<exists>w' lines. poll_for_result stalled_env ''key'' (Suc 3 + 0) example_task 300 ?w
                                = (Done None, w')
                   \<and> fetched w' = fetched ?w @ replicate 3 (polling_url example_task, Some ''key'')
                   \<and> logged w' = logged ?w @ map Info lines @ [timed_out 300]"
    by (rule conjunct1)
  then obtain w' lines where
    "poll_for_result stalled_env ''key'' (Suc 3 + 0) example_task 300 ?w = (Done None, w')"
    "fetched w' = fetched ?w @ replicate 3 (polling_url example_task, Some ''key'')"
    "logged w' = logged ?w @ map Info lines @ [timed_out 300]"
    by blast
  then have "poll_for_result stalled_env ''key'' 4 example_task 300 ?w = (Done None, w')
             \<and> fetched w' = replicate 3 (polling_url example_task, Some ''key'')
             \<and> logged w' = map Info lines @ [Error ''Generation timed out after 300 seconds'']"
    by (simp add: initial_world_fields timed_out_def str_int_300)
  then have run: "\<exists>w' lines. poll_for_result stalled_env ''key'' 4 example_task 300 ?w = (Done None, w')
             \<and> fetched w' = replicate 3 (polling_url example_task, Some ''key'')
             \<and> logged w' = map Info lines @ [Error ''Generation timed out after 300 seconds'']"
    by (intro exI [of _ w'] exI [of _ lines])
  have six: "\<not> elapsed (clock stalled_env 6) 0 < 300"
    by (simp add: stalled_env_def elapsed_def binary64_eval)
  then have late: "\<not> elapsed (clock stalled_env (clock_reads ?v)) 0 < of_int 300"
    by simp
  from inst have "\<forall>v start_time wait_time fuel.
                   \<not> elapsed (clock stalled_env (clock_reads v)) start_time < of_int 300 \<longrightarrow>
                   poll_loop stalled_env ''key'' (Suc fuel) example_task 300 start_time wait_time v
                     = (Done None, logger (timed_out 300) (v\<lparr>clock_reads := Suc (clock_reads v)\<rparr>))"
    by (rule conjunct2)
  from this [rule_format, OF late, where fuel = 0 and wait_time = 2]
  have stop: "poll_loop stalled_env ''key'' 1 example_task 300 0 2 ?v
                = (Done None, ?w\<lparr>clock_reads := 7,
                     logged := [Error ''Generation timed out after 300 seconds'']\<rparr>)"
    by (simp add: logger_def timed_out_def str_int_300 initial_world_def del: poll_loop.simps)
  from idle run six stop show ?thesis
    by (intro conjI)
qed

text \<open>
  The claim as stated fails: here the status request is answered 200 with \<open>Ready\<close> and the
  download is answered 404. None of the outcomes the claim lists occurs (the download is
  not successful, the status is neither \<open>Error\<close> nor \<open>Content Moderated\<close>, the polling
  response is 200), yet the call returns \<open>None\<close> one second after its start, with the
  download failure logged and no timeout logged.
\<close>

theorem poll_timeout_counterexample:
  "fst (poll_for_result download_404_env ''key'' 1 example_task 300 (initial_world example_files))
     = Done None
   \<and> logged (snd (poll_for_result download_404_env ''key'' 1 example_task 300
                    (initial_world example_files)))
       = [Error ''Failed to download image: 404'']
   \<and> timed_out 300 \<noteq> Error ''Failed to download image: 404''
   \<and> elapsed (clock download_404_env 1) (clock download_404_env 0) < 300"
  by (simp add: poll_for_result_def poll_ops download_404_env_def example_env_def
      example_task_def initial_world_def timed_out_def str_int_404 str_int_300
      elapsed_def binary64_eval)

section \<open>Properties of generate_asset and generate_batch\<close>

lemma submit_keeps_files:
  "fs (snd (submit_generation_request g e fuel prompt m ratio ref w)) = fs w"
proof (induction fuel arbitrary: w)
  case 0
  show ?case by simp
next
  case (Suc n)
  show ?case
  proof (cases "max_requests g m \<le> active_requests w")
    case True
    from submit_blocked [OF True, of e "Suc n" prompt ratio ref] show ?thesis by auto
  next
    case False
    then have free: "active_requests w < max_requests g m" by simp
    show ?thesis
    proof (cases "\<exists>rp. post_reply e (length (posted w)) = Returned rp \<and> status_code rp = 429")
      case False
      then have "\<forall>rp. post_reply e (length (posted w)) = Returned rp \<longrightarrow> status_code rp \<noteq> 429"
        by blast
      from submit_not_429 [OF free this, of n prompt ratio ref] show ?thesis
        by (auto simp: world_ops entered_def)
    next
      case True
      then obtain rp where rp: "post_reply e (length (posted w)) = Returned rp" "status_code rp = 429"
        by blast
      let ?w' = "time_sleep (uniform_5_15 e (draws w))
                   ((logger (Warning ''Rate limited, waiting...'') (entered g prompt m ratio ref w))
                      \<lparr>draws := Suc (draws w)\<rparr>)"
      obtain r' w7 where inner:
        "submit_generation_request g e n prompt m ratio ref ?w' = (r', w7)"
        by (cases "submit_generation_request g e n prompt m ratio ref ?w'") blast
      have "fs (snd (submit_generation_request g e n prompt m ratio ref ?w')) = fs ?w'"
        by (rule Suc.IH)
      moreover have "fs ?w' = fs w" by (simp add: world_ops entered_def)
      ultimately have "fs w7 = fs w" using inner by simp
      then show ?thesis
        using submit_429 [OF free rp, of n prompt ratio ref] inner
        by (cases r') (simp_all add: world_ops del: submit_generation_request.simps)
    qed
  qed
qed

lemma poll_loop_keeps_files:
  "fs (snd (poll_loop e key fuel info timeout start_time wait_time w)) = fs w"
proof (induction fuel arbitrary: w wait_time)
  case 0
  show ?case by simp
next
  case (Suc n)
  have a: "\<And>v wt. fs v = fs w \<Longrightarrow>
             fs (snd (poll_loop e key n info timeout start_time wt v)) = fs w"
    using Suc.IH by simp
  show ?case
    by (simp add: poll_ops Let_def a split: attempt.splits option.splits)
qed

lemma generate_image_keeps_files:
  "fs (snd (generate_image g e fuel prompt m ratio ref w)) = fs w"
proof -
  obtain r w1 where sub: "submit_generation_request g e fuel prompt m ratio ref w = (r, w1)"
    by (cases "submit_generation_request g e fuel prompt m ratio ref w") blast
  with submit_keeps_files [of g e fuel prompt m ratio ref w] have w1: "fs w1 = fs w" by simp
  show ?thesis
  proof (cases r)
    case Out_of_fuel
    with sub w1 show ?thesis by (simp add: generate_image_def)
  next
    case (Done res)
    show ?thesis
    proof (cases res)
      case None
      with Done sub w1 show ?thesis by (simp add: generate_image_def)
    next
      case (Some info)
      have "fs (snd (poll_for_result e (api_key g) fuel info 300 w1)) = fs w1"
        using poll_loop_keeps_files [of e "api_key g" fuel info 300]
        by (simp add: poll_for_result_def time_time_def)
      with Some Done sub w1 show ?thesis by (simp add: generate_image_def)
    qed
  qed
qed

lemma post_process_image_keeps_files:
  "fs (snd (post_process_image e raw target w)) = fs w"
  by (simp add: post_process_image_def logger_def split: attempt.splits)

lemma post_process_image_not_empty:
  "post_process_image e raw target w = (Some out, w3) \<Longrightarrow> \<not> falsy_bytes out"
  by (auto simp: post_process_image_def post_process_steps_def save_png_def falsy_bytes_def Let_def
      split: attempt.splits if_splits)

lemma generate_asset_unfold:
  assumes "load_reference (fs w) spec = Returned ref"
  shows "generate_asset g e fuel spec variation w
           = (case generate_image g e fuel (build_prompt (fs w) spec variation) (model spec)
                     (aspect_ratio spec) ref (announced spec variation w) of
                (Out_of_fuel, w2) \<Rightarrow> (Out_of_fuel, w2)
              | (Done image_data, w2) \<Rightarrow>
                  if none_or_empty image_data
                  then (Done (Returned False), logger (Error ''Failed to generate image'') w2)
                  else (case post_process_image e (the image_data) (spec_size spec) w2 of
                          (None, w3) \<Rightarrow>
                            (Done (Returned False), logger (Error ''Failed to post-process image'') w3)
                        | (Some processed, w3) \<Rightarrow>
                            (case write_file (fs w3) (output_dir g @ ''/'' @ asset_filename spec variation)
                                    processed of
                               Raised x \<Rightarrow> (Done (Raised x), w3)
                             | Returned files_after \<Rightarrow>
                                 (Done (Returned True),
                                  logger (Info (''Saved: '' @ output_dir g @ ''/''
                                                @ asset_filename spec variation))
                                    (w3\<lparr>fs := files_after\<rparr>)))))"
proof -
  have ne: "\<And>raw w2 out w3. post_process_image e raw (spec_size spec) w2 = (Some out, w3)
              \<Longrightarrow> \<not> falsy_bytes out"
    by (rule post_process_image_not_empty)
  show ?thesis
    using assms
    by (auto simp: generate_asset_def Let_def announced_def asset_filename_def none_or_empty_def
        split: prod.splits run.splits option.splits attempt.splits dest: ne)
qed

lemma poll_for_result_error:
  assumes "elapsed (clock e (Suc (clock_reads w))) (clock e (clock_reads w)) < of_int timeout"
    and "get_reply e (length (fetched w)) = Returned r" and "status_code r = 200"
    and "json r = Some res" and "json_status res = Some ''Error''"
  shows "fst (poll_for_result e key (Suc n) info timeout w) = Done None"
  using assms by (simp add: poll_for_result_def poll_ops Let_def split: option.splits)

lemma poll_for_result_ready:
  assumes "elapsed (clock e (Suc (clock_reads w))) (clock e (clock_reads w)) < of_int timeout"
    and "get_reply e (length (fetched w)) = Returned r" and "status_code r = 200"
    and "json r = Some res" and "json_status res = Some ''Ready''"
    and "json_sample res = Some url"
    and "get_reply e (Suc (length (fetched w))) = Returned d" and "status_code d = 200"
  shows "fst (poll_for_result e key (Suc n) info timeout w) = Done (Some (content d))"
  using assms by (simp add: poll_for_result_def poll_ops Let_def)

lemma submit_200_fields:
  assumes "active_requests w < max_requests g m"
    and "post_reply e (length (posted w)) = Returned r" and "status_code r = 200"
    and "json r = Some result" and "json_id result = Some i"
  shows "\<exists>w1. submit_generation_request g e (Suc n) prompt m ratio ref w
                 = (Done (Some (handle_of g result i)), w1)
           \<and> fetched w1 = fetched w \<and> clock_reads w1 = clock_reads w
           \<and> active_requests w1 = active_requests w"
  by (simp add: submit_200 [OF assms] world_ops entered_def del: submit_generation_request.simps)

lemma generate_image_error:
  assumes "active_requests w < max_requests g m"
    and "post_reply e (length (posted w)) = Returned r" and "status_code r = 200"
    and "json r = Some result" and "json_id result = Some i"
    and "elapsed (clock e (Suc (clock_reads w))) (clock e (clock_reads w)) < 300"
    and "get_reply e (length (fetched w)) = Returned p" and "status_code p = 200"
    and "json p = Some res" and "json_status res = Some ''Error''"
  shows "fst (generate_image g e (Suc n) prompt m ratio ref w) = Done None"
proof -
  from submit_200_fields [OF assms(1-5), of n prompt ratio ref] obtain w1 where w1:
    "submit_generation_request g e (Suc n) prompt m ratio ref w
       = (Done (Some (handle_of g result i)), w1)"
    "fetched w1 = fetched w" "clock_reads w1 = clock_reads w"
    by blast
  have "fst (poll_for_result e (api_key g) (Suc n) (handle_of g result i) 300 w1) = Done None"
    using assms(6-10) by (intro poll_for_result_error [where r = p and res = res]) (simp_all add: w1)
  with w1(1) show ?thesis
    by (simp add: generate_image_def del: submit_generation_request.simps)
qed

lemma generate_image_ready:
  assumes "active_requests w < max_requests g m"
    and "post_reply e (length (posted w)) = Returned r" and "status_code r = 200"
    and "json r = Some result" and "json_id result = Some i"
    and "elapsed (clock e (Suc (clock_reads w))) (clock e (clock_reads w)) < 300"
    and "get_reply e (length (fetched w)) = Returned p" and "status_code p = 200"
    and "json p = Some res" and "json_status res = Some ''Ready''"
    and "json_sample res = Some url"
    and "get_reply e (Suc (length (fetched w))) = Returned d" and "status_code d = 200"
  shows "fst (generate_image g e (Suc n) prompt m ratio ref w) = Done (Some (content d))"
proof -
  from submit_200_fields [OF assms(1-5), of n prompt ratio ref] obtain w1 where w1:
    "submit_generation_request g e (Suc n) prompt m ratio ref w
       = (Done (Some (handle_of g result i)), w1)"
    "fetched w1 = fetched w" "clock_reads w1 = clock_reads w"
    by blast
  have "fst (poll_for_result e (api_key g) (Suc n) (handle_of g result i) 300 w1)
          = Done (Some (content d))"
    using assms(6-13)
    by (intro poll_for_result_ready [where r = p and res = res and url = url]) (simp_all add: w1)
  with w1(1) show ?thesis
    by (simp add: generate_image_def del: submit_generation_request.simps)
qed

lemma style_guide_spec_fields:
  "name style_guide_spec = ''style_reference''" "model style_guide_spec = PRO_1_1"
  "spec_size style_guide_spec = (512, 512)" "reference_image_path style_guide_spec = None"
  "variations style_guide_spec = None" "aspect_ratio style_guide_spec = ''1:1''"
  by (simp_all add: style_guide_spec_def load_asset_specs_def)

lemma announced_fields:
  "active_requests (announced spec variation w) = active_requests w"
  "posted (announced spec variation w) = posted w"
  "fetched (announced spec variation w) = fetched w"
  "clock_reads (announced spec variation w) = clock_reads w"
  "fs (announced spec variation w) = fs w"
  by (simp_all add: announced_def logger_def)

text \<open>
  Claim C7. When the reference image (if the spec names one) was read and the call of
  \<open>generate_image\<close> returns no bytes, or returns bytes that \<open>post_process_image\<close> rejects,
  \<open>generate_asset\<close> returns \<open>False\<close> and the file system is as it was before the call.
\<close>

theorem generate_asset_failure_writes_nothing:
  assumes "load_reference (fs w) spec = Returned ref"
    and "generate_image g e fuel (build_prompt (fs w) spec variation) (model spec)
           (aspect_ratio spec) ref (announced spec variation w) = (Done image_data, w2)"
    and "none_or_empty image_data
         \<or> (\<exists>raw. image_data = Some raw
                \<and> fst (post_process_image e raw (spec_size spec) w2) = None)"
  shows "fst (generate_asset g e fuel spec variation w) = Done (Returned False)
         \<and> fs (snd (generate_asset g e fuel spec variation w)) = fs w"
proof -
  have "fs w2 = fs (announced spec variation w)"
    using generate_image_keeps_files [of g e fuel "build_prompt (fs w) spec variation" "model spec"
        "aspect_ratio spec" ref "announced spec variation w"] assms(2)
    by simp
  then have w2: "fs w2 = fs w" by (simp add: announced_def logger_def)
  show ?thesis
  proof (cases "none_or_empty image_data")
    case True
    with w2 show ?thesis
      by (simp add: generate_asset_unfold [OF assms(1)] assms(2) logger_def)
  next
    case False
    with assms(3) obtain raw where raw: "image_data = Some raw"
      "fst (post_process_image e raw (spec_size spec) w2) = None"
      by blast
    obtain w3 where w3: "post_process_image e raw (spec_size spec) w2 = (None, w3)"
      using raw(2) by (cases "post_process_image e raw (spec_size spec) w2") simp
    with post_process_image_keeps_files [of e raw "spec_size spec" w2] w2
    have "fs w3 = fs w" by simp
    with False raw(1) w3 show ?thesis
      by (simp add: generate_asset_unfold [OF assms(1)] assms(2) logger_def)
  qed
qed

text \<open>
  The theorem at the scenario of the specification: the backend accepts the submission
  and then reports the status \<open>Error\<close>.
\<close>

theorem generate_asset_failure_writes_nothing_witness:
  "fst (generate_asset (FluxAssetGenerator_init ''key'' ''global'') error_env 1 style_guide_spec None
          (initial_world example_files)) = Done (Returned False)
   \<and> fs (snd (generate_asset (FluxAssetGenerator_init ''key'' ''global'') error_env 1
                 style_guide_spec None (initial_world example_files))) = example_files"
proof -
  let ?g = "FluxAssetGenerator_init ''key'' ''global''"
  let ?w = "initial_world example_files"
  have ref: "load_reference (fs ?w) style_guide_spec = Returned None"
    by (simp add: load_reference_def has_reference_def truthy_def style_guide_spec_fields)
  have "fst (generate_image ?g error_env (Suc 0) (build_prompt (fs ?w) style_guide_spec None)
               (model style_guide_spec) (aspect_ratio style_guide_spec) None
               (announced style_guide_spec None ?w)) = Done None"
    by (rule generate_image_error [where r = "Response 200 (Some (Submit_json (Some ''job-1'') None)) (Raw []) []"
          and result = "Submit_json (Some ''job-1'') None" and i = "''job-1''"
          and p = "Response 200 (Some (Poll_json (Some ''Error'') None (Some ''generation failed'') None)) (Raw []) []"
          and res = "Poll_json (Some ''Error'') None (Some ''generation failed'') None"])
       (simp_all add: announced_fields initial_world_fields max_requests_init style_guide_spec_fields
          error_env_def example_env_def elapsed_def binary64_eval)
  then have gen: "generate_image ?g error_env 1 (build_prompt (fs ?w) style_guide_spec None)
               (model style_guide_spec) (aspect_ratio style_guide_spec) None
               (announced style_guide_spec None ?w)
             = (Done None, snd (generate_image ?g error_env 1
                  (build_prompt (fs ?w) style_guide_spec None)
                  (model style_guide_spec) (aspect_ratio style_guide_spec) None
                  (announced style_guide_spec None ?w)))"
    by (simp add: prod_eq_iff)
  have fail: "none_or_empty None
              \<or> (\<exists>raw. None = Some raw
                     \<and> fst (post_process_image error_env raw (spec_size style_guide_spec)
                              (snd (generate_image ?g error_env 1
                                 (build_prompt (fs ?w) style_guide_spec None)
                                 (model style_guide_spec) (aspect_ratio style_guide_spec) None
                                 (announced style_guide_spec None ?w)))) = None)"
    by (simp add: none_or_empty_def)
  from generate_asset_failure_writes_nothing [OF ref gen fail] show ?thesis
    by (simp add: initial_world_fields)
qed

lemma post_process_steps_succeeds:
  assumes "Image_open raw = Returned img" and "0 < fst target" and "0 < snd target"
    and "fst target \<le> 2147483647" and "snd target \<le> 2147483647"
  shows "\<exists>out. post_process_steps pil raw target = Returned out"
  using assms
  by (simp add: post_process_steps_def resize_LANCZOS_def save_png_def filter_SHARPEN_def
      convert_RGBA_def png_modes_def Let_def)

lemma generate_asset_write_error:
  assumes "load_reference (fs w) spec = Returned ref"
    and "fst (generate_image g e fuel (build_prompt (fs w) spec variation) (model spec)
                (aspect_ratio spec) ref (announced spec variation w)) = Done (Some raw)"
    and "Image_open raw = Returned img"
    and "0 < fst (spec_size spec)" and "0 < snd (spec_size spec)"
    and "fst (spec_size spec) \<le> 2147483647" and "snd (spec_size spec) \<le> 2147483647"
    and "write_fails (fs w) (output_dir g @ ''/'' @ asset_filename spec variation)"
  shows "fst (generate_asset g e fuel spec variation w) = Done (Raised OSError)"
proof -
  obtain w2 where gen:
    "generate_image g e fuel (build_prompt (fs w) spec variation) (model spec)
       (aspect_ratio spec) ref (announced spec variation w) = (Done (Some raw), w2)"
    using assms(2) by (metis prod.collapse)
  have "fs w2 = fs (announced spec variation w)"
    using generate_image_keeps_files [of g e fuel "build_prompt (fs w) spec variation" "model spec"
        "aspect_ratio spec" ref "announced spec variation w"] gen
    by simp
  then have w2: "fs w2 = fs w" by (simp add: announced_fields)
  from post_process_steps_succeeds [OF assms(3,4,5,6,7)] obtain out where
    "post_process_steps (pixel_ops e) raw (spec_size spec) = Returned out"
    by blast
  then have pp: "post_process_image e raw (spec_size spec) w2 = (Some out, w2)"
    by (simp add: post_process_image_def)
  have "\<not> none_or_empty (Some raw)"
    using assms(3) by (auto simp: none_or_empty_def falsy_bytes_def Image_open_def)
  then show ?thesis
    using assms(8) w2
    by (simp add: generate_asset_unfold [OF assms(1)] gen pp write_file_def)
qed

lemma generate_specs_raises:
  assumes "fst (generate_asset g e fuel spec None w) = Done (Raised x)"
    and "variations spec = None"
  shows "fst (generate_specs g e fuel (spec # rest) c w) = Done (Raised x)"
proof -
  obtain w1 where "generate_asset g e fuel spec None w = (Done (Raised x), w1)"
    using assms(1) by (metis prod.collapse)
  with assms(2) show ?thesis by simp
qed

lemma generate_batch_raises:
  assumes "filter (\<lambda>spec. batch_group spec = Some group_name) (asset_specs g) = spec # rest"
    and "group_name \<noteq> ''yeti_run''" and "variations spec = None"
    and "fst (generate_asset g e fuel spec None
                (logger (Info (''Generating batch: '' @ group_name)) w)) = Done (Raised x)"
  shows "fst (generate_batch g e fuel group_name w) = Done (Raised x)"
proof -
  from generate_specs_raises [OF assms(4,3), of rest 0] obtain w2 where
    "generate_specs g e fuel (spec # rest) 0 (logger (Info (''Generating batch: '' @ group_name)) w)
       = (Done (Raised x), w2)"
    by (metis prod.collapse)
  with assms(1,2) show ?thesis
    by (simp add: generate_batch_def Let_def del: generate_specs.simps)
qed

lemma example_env_generates:
  assumes "active_requests w < max_requests g m" and "posted w = []" and "fetched w = []"
  shows "fst (generate_image g example_env (Suc n) prompt m ratio ref w)
           = Done (Some (Encoded ''PNG'' example_image))"
proof -
  have "fst (generate_image g example_env (Suc n) prompt m ratio ref w)
          = Done (Some (content (Response 200 None (Encoded ''PNG'' example_image) []
                                   :: poll_json response)))"
    by (rule generate_image_ready [where r = "Response 200 (Some (Submit_json (Some ''job-1'') None)) (Raw []) []"
          and result = "Submit_json (Some ''job-1'') None" and i = "''job-1''"
          and p = "Response 200 (Some (Poll_json (Some ''Ready'')
                     (Some ''https://delivery.example/job-1.png'') None None)) (Raw []) []"
          and res = "Poll_json (Some ''Ready'') (Some ''https://delivery.example/job-1.png'') None None"
          and url = "''https://delivery.example/job-1.png''"])
       (simp_all add: assms example_env_def elapsed_def binary64_eval)
  then show ?thesis by simp
qed

text \<open>
  Claim C8, at the input where the code departs from it. The backend delivers an image,
  post-processing succeeds, and the output file cannot be opened for writing. The
  \<open>OSError\<close> of \<open>open(filepath, "wb")\<close> leaves \<open>generate_asset\<close>, which has no \<open>try\<close>, and
  then leaves \<open>generate_batch\<close>, which has none either: neither call returns a boolean.
\<close>

theorem generate_asset_write_error_propagates:
  "fst (generate_asset (FluxAssetGenerator_init ''key'' ''global'') example_env 1 style_guide_spec
          None (initial_world unwritable_files)) = Done (Raised OSError)
   \<and> fst (generate_batch (FluxAssetGenerator_init ''key'' ''global'') example_env 1 ''yeti''
            (initial_world unwritable_files)) = Done (Raised OSError)"
proof -
  let ?g = "FluxAssetGenerator_init ''key'' ''global''"
  let ?w = "initial_world unwritable_files"
  have single: "fst (generate_asset ?g example_env 1 style_guide_spec None ?w) = Done (Raised OSError)"
  proof (rule generate_asset_write_error [where ref = None and raw = "Encoded ''PNG'' example_image"
        and img = example_image])
    show "load_reference (fs ?w) style_guide_spec = Returned None"
      by (simp add: load_reference_def has_reference_def truthy_def style_guide_spec_fields)
    show "fst (generate_image ?g example_env 1 (build_prompt (fs ?w) style_guide_spec None)
                 (model style_guide_spec) (aspect_ratio style_guide_spec) None
                 (announced style_guide_spec None ?w)) = Done (Some (Encoded ''PNG'' example_image))"
      using example_env_generates [of "announced style_guide_spec None ?w" ?g "model style_guide_spec" 0]
      by (simp add: announced_fields initial_world_fields max_requests_init)
    show "Image_open (Encoded ''PNG'' example_image) = Returned example_image"
      by (simp add: Image_open_def)
    show "0 < fst (spec_size style_guide_spec)" "0 < snd (spec_size style_guide_spec)"
      by (simp_all add: style_guide_spec_fields)
    show "fst (spec_size style_guide_spec) \<le> 2147483647"
      "snd (spec_size style_guide_spec) \<le> 2147483647"
      by (simp_all add: style_guide_spec_fields)
    show "write_fails (fs ?w) (output_dir ?g @ ''/'' @ asset_filename style_guide_spec None)"
      by (simp add: initial_world_fields unwritable_files_def)
  qed
  let ?spec = yeti_frame1_spec
  let ?w1 = "logger (Info (''Generating batch: '' @ ''yeti'')) ?w"
  have spec: "variations ?spec = None" "reference_image_path ?spec = None"
    "spec_size ?spec = (60, 60)"
    by (simp_all add: yeti_frame1_spec_def load_asset_specs_def)
  have batch: "fst (generate_batch ?g example_env 1 ''yeti'' ?w) = Done (Raised OSError)"
  proof (rule generate_batch_raises [where spec = ?spec and rest = "drop 2 (take 6 load_asset_specs)"])
    show "filter (\<lambda>spec. batch_group spec = Some ''yeti'') (asset_specs ?g)
            = ?spec # drop 2 (take 6 load_asset_specs)"
      by (simp add: FluxAssetGenerator_init_def load_asset_specs_def yeti_frame1_spec_def)
    show "''yeti'' \<noteq> ''yeti_run''" by simp
    show "variations ?spec = None" by (rule spec)
    show "fst (generate_asset ?g example_env 1 ?spec None ?w1) = Done (Raised OSError)"
    proof (rule generate_asset_write_error [where ref = None and raw = "Encoded ''PNG'' example_image"
          and img = example_image])
      show "load_reference (fs ?w1) ?spec = Returned None"
        by (simp add: load_reference_def has_reference_def truthy_def spec)
      show "fst (generate_image ?g example_env 1 (build_prompt (fs ?w1) ?spec None)
                   (model ?spec) (aspect_ratio ?spec) None (announced ?spec None ?w1))
              = Done (Some (Encoded ''PNG'' example_image))"
        using example_env_generates [of "announced ?spec None ?w1" ?g "model ?spec" 0]
        by (simp add: announced_fields initial_world_fields max_requests_init logger_def)
      show "Image_open (Encoded ''PNG'' example_image) = Returned example_image"
        by (simp add: Image_open_def)
      show "0 < fst (spec_size ?spec)" "0 < snd (spec_size ?spec)"
        by (simp_all add: spec)
      show "fst (spec_size ?spec) \<le> 2147483647" "snd (spec_size ?spec) \<le> 2147483647"
        by (simp_all add: spec)
      show "write_fails (fs ?w1) (output_dir ?g @ ''/'' @ asset_filename ?spec None)"
        by (simp add: initial_world_fields unwritable_files_def logger_def)
    qed
  qed
  from single batch show ?thesis by simp
qed

end
